theory Spec2Isabelle
  imports Main "HOL-Library.AList" "HOL-Library.Sublist"
begin

section \<open>Python values and dictionaries\<close>

text \<open>
  The functions of \<^verbatim>\<open>app/app_fn.py\<close> exchange JSON data: a manifest entry is a Python
  dict from attribute names to JSON values, the Steam library and the user registry are
  dicts from application identifiers to such entries, and every public function hands a
  dict to \<^verbatim>\<open>json.dumps\<close>. A Python dict keeps its keys in insertion order, so it is
  modelled as an association list; assignment \<^verbatim>\<open>d[k] = v\<close> is \<open>AList.update\<close> (an
  existing key keeps its place, a new key goes last), \<^verbatim>\<open>d.pop(k)\<close> is \<open>AList.delete\<close>
  and \<^verbatim>\<open>d.get(k)\<close> is \<open>dict_get\<close> below. The keys of a Python dict are pairwise
  distinct; \<open>wf_dict\<close> says so of an association list.
\<close>

datatype jv =
    JNone
  | JBool bool
  | JInt int
  | JStr string
  | JList "jv list"
  | JDict "(string \<times> jv) list"

type_synonym entry = "(string \<times> jv) list"
type_synonym apps = "(string \<times> entry) list"

datatype py_error = TypeError | KeyError string

definition wf_dict :: "(string \<times> 'v) list \<Rightarrow> bool" where
  "wf_dict d = distinct (map fst d)"

text \<open>\<^verbatim>\<open>d.get(k)\<close>: the value, or \<^verbatim>\<open>None\<close> for a missing key.\<close>

definition dict_get :: "entry \<Rightarrow> string \<Rightarrow> jv" where
  "dict_get d k = (case map_of d k of None \<Rightarrow> JNone | Some v \<Rightarrow> v)"

text \<open>\<^verbatim>\<open>d.get(k, default)\<close>.\<close>

definition dict_get_default :: "entry \<Rightarrow> string \<Rightarrow> jv \<Rightarrow> jv" where
  "dict_get_default d k dflt = (case map_of d k of None \<Rightarrow> dflt | Some v \<Rightarrow> v)"

text \<open>\<^verbatim>\<open>k in d\<close>.\<close>

definition has_key :: "(string \<times> 'v) list \<Rightarrow> string \<Rightarrow> bool" where
  "has_key d k = (map_of d k \<noteq> None)"

text \<open>\<^verbatim>\<open>d.update(other)\<close>: every item of \<open>other\<close> is assigned, in order.\<close>

definition dict_update :: "(string \<times> 'v) list \<Rightarrow> (string \<times> 'v) list \<Rightarrow> (string \<times> 'v) list" where
  "dict_update d other = fold (\<lambda>(k, v) acc. AList.update k v acc) other d"

text \<open>Python's truth value of a JSON value (\<^verbatim>\<open>if x:\<close>).\<close>

fun truthy :: "jv \<Rightarrow> bool" where
  "truthy JNone = False"
| "truthy (JBool b) = b"
| "truthy (JInt n) = (n \<noteq> 0)"
| "truthy (JStr s) = (s \<noteq> [])"
| "truthy (JList xs) = (xs \<noteq> [])"
| "truthy (JDict d) = (d \<noteq> [])"

text \<open>A value that can be looked up in a dict; a list or a dict is unhashable.\<close>

fun hashable :: "jv \<Rightarrow> bool" where
  "hashable (JList xs) = False"
| "hashable (JDict d) = False"
| "hashable v = True"

text \<open>The dict of dicts \<^verbatim>\<open>steam_apps\<close> as the JSON value \<^verbatim>\<open>json.dumps\<close> receives.\<close>

definition apps_json :: "apps \<Rightarrow> jv" where
  "apps_json a = JDict (map (\<lambda>(k, e). (k, JDict e)) a)"

text \<open>
  The dict a public function passes to \<^verbatim>\<open>json.dumps\<close> is its response; \<open>resp_get\<close>
  reads one of its fields.
\<close>

definition resp_get :: "jv \<Rightarrow> string \<Rightarrow> jv" where
  "resp_get r k = (case r of JDict d \<Rightarrow> dict_get d k | _ \<Rightarrow> JNone)"


subsection \<open>Decimal formatting\<close>

text \<open>
  \<^verbatim>\<open>f'{n:03d}'\<close>: the decimal digits of \<open>n\<close>, padded with zeros on the left to three
  characters; the sign of a negative number counts as one of the three.
\<close>

definition digit_char :: "nat \<Rightarrow> char" where
  "digit_char d = ''0123456789'' ! d"

fun digits :: "nat \<Rightarrow> string" where
  "digits n = (if n < 10 then [digit_char n] else digits (n div 10) @ [digit_char (n mod 10)])"

declare digits.simps [simp del]

definition zero_pad :: "nat \<Rightarrow> string \<Rightarrow> string" where
  "zero_pad w s = replicate (w - length s) (CHR ''0'') @ s"

definition format_03d :: "int \<Rightarrow> string" where
  "format_03d n =
     (if n < 0 then CHR ''-'' # zero_pad 2 (digits (nat (- n)))
      else zero_pad 3 (digits (nat n)))"

text \<open>The number a string of decimal digits denotes (used to read \<open>format_03d\<close> back).\<close>

definition dec_val :: "string \<Rightarrow> nat" where
  "dec_val s = foldl (\<lambda>a c. 10 * a + (of_char c - 48)) 0 s"

definition parse_int :: "string \<Rightarrow> int" where
  "parse_int s =
     (case s of
        [] \<Rightarrow> 0
      | c # cs \<Rightarrow> if c = CHR ''-'' then - int (dec_val cs) else int (dec_val s))"

section \<open>Mod data directories (app/mod/mod\_utils.py)\<close>

text \<open>
  The file system as the code reads it through \<^verbatim>\<open>pathlib\<close>: \<^verbatim>\<open>Path(p).exists()\<close>, the
  join \<^verbatim>\<open>Path(d) / name\<close>, \<^verbatim>\<open>Path(p).as_posix()\<close> and \<^verbatim>\<open>Path(p).parent\<close>. A path is the
  string it was made from.
\<close>

record file_system =
  path_exists :: "string \<Rightarrow> bool"
  path_join :: "string \<Rightarrow> string \<Rightarrow> string"
  as_posix :: "string \<Rightarrow> string"
  path_parent :: "string \<Rightarrow> string"

text \<open>
  \<^verbatim>\<open>get_mod\<close> looks the class name up in \<^verbatim>\<open>BaseModType.mod_types\<close> and fetches the class
  from the package \<^verbatim>\<open>app.mod\<close>; neither is among the sources, so the table from type
  specifier to class (its constructor taking the manifest) is a parameter, as are the
  attributes \<^verbatim>\<open>DLL_NAME\<close> and \<^verbatim>\<open>settings.CFG_FILE\<close> of a mod object. A specifier missing
  from the table gives \<^verbatim>\<open>getattr(app.mod, None)\<close>, which raises \<^verbatim>\<open>TypeError\<close>.
\<close>

record 'm mod_env =
  mod_types :: "int \<Rightarrow> (entry \<Rightarrow> 'm) option"
  DLL_NAME :: "'m \<Rightarrow> string"
  CFG_FILE :: "'m \<Rightarrow> string"

definition get_mod :: "'m mod_env \<Rightarrow> entry \<Rightarrow> int \<Rightarrow> py_error + 'm" where
  "get_mod env manifest mod_type =
     (case mod_types env mod_type of
        None \<Rightarrow> Inl TypeError
      | Some mod_type_class \<Rightarrow> Inr (mod_type_class manifest))"

text \<open>
  \<^verbatim>\<open>custom_data_dir\<close> is what \<^verbatim>\<open>AppSettings.mod_data_dirs.get(mod_type)\<close> returned:
  \<^verbatim>\<open>None\<close> or a string.
\<close>

definition check_mod_data_dir ::
  "'m mod_env \<Rightarrow> file_system \<Rightarrow> string option \<Rightarrow> int \<Rightarrow> py_error + bool" where
  "check_mod_data_dir env fs custom_data_dir mod_type =
     (case custom_data_dir of
        None \<Rightarrow> Inr False
      | Some d \<Rightarrow>
          if d \<noteq> [] \<and> path_exists fs d then
            (case get_mod env [] mod_type of
               Inl e \<Rightarrow> Inl e
             | Inr the_mod \<Rightarrow>
                 (let dll_exists = path_exists fs (path_join fs d (DLL_NAME env the_mod));
                      cfg_exists = path_exists fs (path_join fs d (CFG_FILE env the_mod))
                  in if dll_exists \<and> cfg_exists then Inr True else Inr False))
          else Inr False)"

text \<open>A file system and a mod table to run the check on.\<close>

definition example_fs :: file_system where
  "example_fs =
     \<lparr> path_exists = (\<lambda>p. p \<in> set [''/game'', ''/game/openvr_api.dll'', ''/game/openvr_mod.cfg'',
                                     ''/other'', ''/other/openvr_api.dll'', ''/game2'', ''/empty'']),
       path_join = (\<lambda>d n. d @ ''/'' @ n),
       as_posix = (\<lambda>p. p),
       path_parent = (\<lambda>p. rev (drop 1 (dropWhile (\<lambda>c. c \<noteq> CHR ''/'') (rev p)))) \<rparr>"

definition example_mod_env :: "unit mod_env" where
  "example_mod_env =
     \<lparr> mod_types = (\<lambda>t. if t = 0 then Some (\<lambda>manifest. ()) else None),
       DLL_NAME = (\<lambda>m. ''openvr_api.dll''),
       CFG_FILE = (\<lambda>m. ''openvr_mod.cfg'') \<rparr>"

section \<open>The mod operations (app/app\_fn.py)\<close>

text \<open>
  The class \<^verbatim>\<open>FsrMod\<close> is not among the sources. The functions below read two of its
  attributes, \<^verbatim>\<open>manifest\<close> and \<^verbatim>\<open>error\<close>, and write into \<^verbatim>\<open>manifest\<close>; a mod object is
  a record of these two (any further attribute lives in the record's extension). Its
  constructor and its methods \<^verbatim>\<open>update_cfg\<close>, \<^verbatim>\<open>install\<close>, \<^verbatim>\<open>uninstall\<close> and
  \<^verbatim>\<open>get_fsr_version\<close> are parameters; a method takes the world \<open>'w\<close> it acts on (the
  game directories on disk) and returns its boolean result, the object and the world
  after the call.
\<close>

record fsr_mod =
  manifest :: entry
  error :: jv

record ('x, 'w) fsr_ops =
  FsrMod :: "entry \<Rightarrow> 'x fsr_mod_scheme"
  update_cfg :: "'w \<Rightarrow> 'x fsr_mod_scheme \<Rightarrow> bool \<times> 'x fsr_mod_scheme \<times> 'w"
  install :: "'w \<Rightarrow> 'x fsr_mod_scheme \<Rightarrow> bool \<times> 'x fsr_mod_scheme \<times> 'w"
  uninstall :: "'w \<Rightarrow> 'x fsr_mod_scheme \<Rightarrow> bool \<times> 'x fsr_mod_scheme \<times> 'w"
  get_fsr_version :: "'w \<Rightarrow> 'x fsr_mod_scheme \<Rightarrow> jv"

text \<open>\<^verbatim>\<open>fsr.manifest['fsrVersion'] = v\<close>.\<close>

definition set_fsr_version :: "jv \<Rightarrow> 'x fsr_mod_scheme \<Rightarrow> 'x fsr_mod_scheme" where
  "set_fsr_version v fsr = fsr\<lparr>manifest := AList.update ''fsrVersion'' v (manifest fsr)\<rparr>"


definition install_fsr_fn :: "('x, 'w) fsr_ops \<Rightarrow> 'w \<Rightarrow> entry \<Rightarrow> jv \<times> 'w" where
  "install_fsr_fn ops w manifest0 =
     (let fsr = FsrMod ops manifest0;
          (install_result, fsr1, w1) = install ops w fsr;
          fsr2 = (if install_result then set_fsr_version (get_fsr_version ops w1 fsr1) fsr1 else fsr1)
      in (JDict [(''result'', JBool install_result),
                 (''msg'', error fsr2),
                 (''manifest'', JDict (manifest fsr2))], w1))"

definition uninstall_fsr_fn :: "('x, 'w) fsr_ops \<Rightarrow> 'w \<Rightarrow> entry \<Rightarrow> jv \<times> 'w" where
  "uninstall_fsr_fn ops w manifest0 =
     (let fsr = FsrMod ops manifest0;
          (uninstall_result, fsr1, w1) = uninstall ops w fsr;
          fsr2 = (if uninstall_result then set_fsr_version (JStr []) fsr1 else fsr1)
      in (JDict [(''result'', JBool uninstall_result),
                 (''msg'', error fsr2),
                 (''manifest'', JDict (manifest fsr2))], w1))"

text \<open>
  A mod whose world is the set of directories that hold the mod: installing into a
  directory that holds it already fails with an error text, as does removing it from a
  directory that does not hold it. The directory is the manifest's \<^verbatim>\<open>path\<close>.
\<close>

definition example_ops :: "(unit, jv list) fsr_ops" where
  "example_ops =
     \<lparr> FsrMod = (\<lambda>m. \<lparr>manifest = m, error = JStr []\<rparr>),
       update_cfg = (\<lambda>w fsr. (dict_get (manifest fsr) ''path'' \<in> set w, fsr, w)),
       install = (\<lambda>w fsr.
          if dict_get (manifest fsr) ''path'' \<in> set w
          then (False, fsr\<lparr>error := JStr ''already installed''\<rparr>, w)
          else (True, fsr, dict_get (manifest fsr) ''path'' # w)),
       uninstall = (\<lambda>w fsr.
          if dict_get (manifest fsr) ''path'' \<in> set w
          then (True, fsr, removeAll (dict_get (manifest fsr) ''path'') w)
          else (False, fsr\<lparr>error := JStr ''not installed''\<rparr>, w)),
       get_fsr_version = (\<lambda>w fsr. JStr ''2.0'') \<rparr>"

definition example_manifest :: entry where
  "example_manifest =
     [(''appid'', JStr ''250820''), (''path'', JStr ''/game''), (''fsrVersion'', JStr ''1.0'')]"

text \<open>The manifest entry inside a response.\<close>

definition resp_manifest :: "jv \<Rightarrow> entry" where
  "resp_manifest r = (case resp_get r ''manifest'' of JDict d \<Rightarrow> d | _ \<Rightarrow> [])"

section \<open>The application settings and the user registry\<close>

text \<open>
  Modelled from the spec: the class \<^verbatim>\<open>AppSettings\<close> (app/app\_settings.py) is not among
  the sources. The spec names a persisted settings cache with \<^verbatim>\<open>load\<close> and \<^verbatim>\<open>save\<close> and a
  user registry, enumerable by identifier, with a counter for generated identifiers. The
  state holds the two class attributes the code reads and writes (\<^verbatim>\<open>user_apps\<close>,
  \<^verbatim>\<open>user_app_counter\<close>) and the two files behind them: the disk cache of Steam apps, read
  and written by \<^verbatim>\<open>load_steam_apps\<close> and \<^verbatim>\<open>save_steam_apps\<close>, and the settings file, which
  \<^verbatim>\<open>save\<close> writes from the attributes and \<^verbatim>\<open>load\<close> reads back into them.
\<close>

record app_settings =
  user_apps :: apps
  user_app_counter :: int
  steam_apps_file :: apps
  settings_file :: "apps \<times> int"

definition AppSettings_save :: "app_settings \<Rightarrow> app_settings" where
  "AppSettings_save s = s\<lparr>settings_file := (user_apps s, user_app_counter s)\<rparr>"

definition AppSettings_load :: "app_settings \<Rightarrow> app_settings" where
  "AppSettings_load s =
     s\<lparr>user_apps := fst (settings_file s), user_app_counter := snd (settings_file s)\<rparr>"

definition save_steam_apps :: "apps \<Rightarrow> app_settings \<Rightarrow> app_settings" where
  "save_steam_apps a s = s\<lparr>steam_apps_file := a\<rparr>"

definition load_steam_apps :: "app_settings \<Rightarrow> apps" where
  "load_steam_apps s = steam_apps_file s"

text \<open>The two-field dict most functions answer with.\<close>

definition response :: "bool \<Rightarrow> string \<Rightarrow> jv" where
  "response ok msg = JDict [(''result'', JBool ok), (''msg'', JStr msg)]"

subsection \<open>Removing a user app\<close>

text \<open>
  \<^verbatim>\<open>remove_custom_app_fn\<close>. The keys of the registry are strings, so a value of another
  hashable type is never among them; the membership test on an unhashable value (a list
  or a dict) raises \<^verbatim>\<open>TypeError\<close>. The parameter \<open>str\<close> is Python's \<^verbatim>\<open>str()\<close>, which the
  f-strings apply to the values they show. A function returns its outcome (an exception
  as \<open>Inl\<close>) and the settings after the call.
\<close>

definition remove_custom_app_fn ::
  "(jv \<Rightarrow> string) \<Rightarrow> entry \<Rightarrow> app_settings \<Rightarrow> (py_error + jv) \<times> app_settings" where
  "remove_custom_app_fn str app s =
     (let not_found =
            (Inr (response False (''Could not find app with Id: '' @ str (dict_get app ''appid''))), s)
      in if \<not> hashable (dict_get app ''appid'') then (Inl TypeError, s)
         else
           (case dict_get app ''appid'' of
              JStr k \<Rightarrow>
                (case map_of (user_apps s) k of
                   None \<Rightarrow> not_found
                 | Some e \<Rightarrow>
                     (Inr (response True (''App entry '' @ str (dict_get e ''name'') @ '' ''
                                           @ str (dict_get e ''appid'') @ '' created.'')),
                      AppSettings_save (s\<lparr>user_apps := AList.delete k (user_apps s)\<rparr>)))
            | _ \<Rightarrow> not_found))"

subsection \<open>Adding a user app\<close>

text \<open>
  \<^verbatim>\<open>add_custom_app_fn\<close> reads the file system, searches the directory with
  \<^verbatim>\<open>ManifestWorker.find_open_vr_dll\<close> and reads each found directory's config into a fresh
  \<^verbatim>\<open>FsrSettings\<close> object; these two classes are not among the sources and are parameters
  (\<open>'f\<close> is the settings object, which \<^verbatim>\<open>read_from_cfg\<close> updates). The constant
  \<^verbatim>\<open>USER_APP_PREFIX\<close> of app/globals.py is the parameter \<open>P\<close>.
\<close>

record 'f custom_env =
  py_str :: "jv \<Rightarrow> string"
  find_open_vr_dll :: "string \<Rightarrow> string list"
  FsrSettings :: "'f"
  read_from_cfg :: "'f \<Rightarrow> string \<Rightarrow> bool \<times> 'f"
  to_js :: "'f \<Rightarrow> jv"

text \<open>The loop \<^verbatim>\<open>for p in openvr_paths: cfg_results.append(f.read_from_cfg(p.parent))\<close>.\<close>

fun read_cfgs :: "'f custom_env \<Rightarrow> file_system \<Rightarrow> 'f \<Rightarrow> string list \<Rightarrow> bool list \<times> 'f" where
  "read_cfgs env fs f [] = ([], f)"
| "read_cfgs env fs f (p # ps) =
     (let (r, f1) = read_from_cfg env f (path_parent fs p);
          (rs, f2) = read_cfgs env fs f1 ps
      in (r # rs, f2))"

text \<open>The identifier of line 180, \<^verbatim>\<open>f'{USER_APP_PREFIX}{AppSettings.user_app_counter:03d}'\<close>.\<close>

definition user_app_id :: "string \<Rightarrow> int \<Rightarrow> string" where
  "user_app_id P counter = P @ format_03d counter"

text \<open>The entry of lines 182 to 193.\<close>

definition user_app_entry ::
  "'f custom_env \<Rightarrow> file_system \<Rightarrow> entry \<Rightarrow> string \<Rightarrow> string \<Rightarrow> string list \<Rightarrow> bool list \<Rightarrow> 'f \<Rightarrow> entry" where
  "user_app_entry env fs app app_id p openvr_paths cfg_results f =
     [(''appid'', JStr app_id),
      (''name'', dict_get_default app ''name'' (JStr app_id)),
      (''path'', JStr (as_posix fs p)),
      (''openVrDllPaths'', JList (map (\<lambda>q. JStr (as_posix fs q)) openvr_paths)),
      (''openVrDllPathsSelected'', JList (map (\<lambda>q. JStr (as_posix fs q)) openvr_paths)),
      (''openVr'', JBool True),
      (''settings'', to_js env f),
      (''fsrInstalled'', JBool (True \<in> set cfg_results)),
      (''sizeGb'', JInt 0),
      (''SizeOnDisk'', JInt 0),
      (''userApp'', JBool True)]"

definition add_custom_app_fn ::
  "string \<Rightarrow> file_system \<Rightarrow> 'f custom_env \<Rightarrow> entry \<Rightarrow> app_settings
     \<Rightarrow> (py_error + jv) \<times> app_settings" where
  "add_custom_app_fn P fs env app s =
     (case dict_get app ''path'' of
        JNone \<Rightarrow> (Inr (response False ''No valid path provided.''), s)
      | JStr p \<Rightarrow>
          if p = [] then (Inr (response False ''No valid path provided.''), s)
          else if \<not> path_exists fs p then
            (Inr (response False ''Provided path does not exist.''), s)
          else
            (case find (\<lambda>(app_id, e). dict_get e ''path'' = JStr (as_posix fs p)) (user_apps s) of
               Some (app_id, e) \<Rightarrow>
                 (Inr (response False (''Entry already exists as '' @ py_str env (dict_get e ''name'')
                                        @ '', Id: '' @ app_id @ ''.'')), s)
             | None \<Rightarrow>
                 (let openvr_paths = find_open_vr_dll env p in
                  if openvr_paths = [] then
                    (Inr (response False (''No OpenVR dll found in: '' @ as_posix fs p
                                           @ '' or any sub directory.'')), s)
                  else
                    (let (cfg_results, f) = read_cfgs env fs (FsrSettings env) openvr_paths;
                         counter = user_app_counter s + 1;
                         app_id = user_app_id P counter;
                         e = user_app_entry env fs app app_id p openvr_paths cfg_results f;
                         s1 = s\<lparr>user_app_counter := counter,
                                user_apps := AList.update app_id e (user_apps s)\<rparr>
                     in (Inr (response True (''App entry '' @ app_id @ '' created.'')),
                         AppSettings_save s1))))
      | _ \<Rightarrow> (Inl TypeError, s))"

text \<open>A call succeeded when it answered with \<^verbatim>\<open>result\<close> true.\<close>

definition succeeded :: "(py_error + jv) \<Rightarrow> bool" where
  "succeeded out = (case out of Inl e \<Rightarrow> False | Inr r \<Rightarrow> resp_get r ''result'' = JBool True)"

text \<open>
  A sequence of calls of \<open>add_custom_app_fn\<close>, each with the file system and the
  collaborators of its moment; the result lists the registry keys under which the
  successful calls stored their entries, oldest first.
\<close>

fun add_custom_apps ::
  "string \<Rightarrow> (file_system \<times> 'f custom_env \<times> entry) list \<Rightarrow> app_settings
     \<Rightarrow> string list \<times> app_settings" where
  "add_custom_apps P [] s = ([], s)"
| "add_custom_apps P ((fs, env, app) # calls) s =
     (let (out, s1) = add_custom_app_fn P fs env app s;
          (ids, s2) = add_custom_apps P calls s1
      in ((if succeeded out then [user_app_id P (user_app_counter s1)] else []) @ ids, s2))"

text \<open>Settings and collaborators to run the registry functions on.\<close>

definition example_str :: "jv \<Rightarrow> string" where
  "example_str v = (case v of JStr x \<Rightarrow> x | _ \<Rightarrow> ''None'')"

definition example_custom_env :: "nat custom_env" where
  "example_custom_env =
     \<lparr> py_str = example_str,
       find_open_vr_dll = (\<lambda>p. if p = ''/empty'' then [] else [p @ ''/bin/openvr_api.dll'']),
       FsrSettings = 0,
       read_from_cfg = (\<lambda>f d. (False, Suc f)),
       to_js = (\<lambda>f. JList []) \<rparr>"

definition example_settings :: app_settings where
  "example_settings =
     \<lparr> user_apps = [(''#Usr001'', [(''appid'', JStr ''#Usr001''), (''name'', JStr ''Old''),
                                    (''path'', JStr ''/other''), (''userApp'', JBool True)])],
       user_app_counter = 1,
       steam_apps_file = [],
       settings_file = ([], 0) \<rparr>"

definition example_calls :: "(file_system \<times> nat custom_env \<times> entry) list" where
  "example_calls =
     [(example_fs, example_custom_env, [(''path'', JStr ''/game''), (''name'', JStr ''Game'')]),
      (example_fs, example_custom_env, [(''path'', JStr ''/game'')]),
      (example_fs, example_custom_env, [(''path'', JStr ''/missing'')]),
      (example_fs, example_custom_env, [(''path'', JStr ''/game2'')])]"

section \<open>The Steam library (app/app\_fn.py)\<close>

text \<open>
  The collaborators of the library functions that are not among the sources:
  \<^verbatim>\<open>steam.apps.read_steam_library\<close> with the dict \<^verbatim>\<open>steam.apps.steam_apps\<close> it fills (or
  the text of the exception it raises), the key \<^verbatim>\<open>steam.STEAM_LIBRARY_FOLDERS\<close> of the
  helper entry, \<^verbatim>\<open>ManifestWorker.update_steam_apps\<close>, the settings of a manifest entry in
  structured form, \<^verbatim>\<open>FsrMod(entry).settings.to_js(export=b)\<close>, and the constant
  \<^verbatim>\<open>USER_APP_PREFIX\<close>.
\<close>

record lib_env =
  read_steam_library :: "string + apps"
  STEAM_LIBRARY_FOLDERS :: string
  update_steam_apps :: "apps \<Rightarrow> apps"
  settings_to_js :: "bool \<Rightarrow> entry \<Rightarrow> jv"
  USER_APP_PREFIX :: string

text \<open>The dict \<^verbatim>\<open>reduce_steam_apps_for_export\<close> builds for one entry, key by key.\<close>

definition reduce_entry :: "(bool \<Rightarrow> entry \<Rightarrow> jv) \<Rightarrow> entry \<Rightarrow> entry" where
  "reduce_entry js e =
     [(''settings'', js True e),
      (''fsrInstalled'', dict_get e ''fsrInstalled''),
      (''fsrVersion'', dict_get e ''fsrVersion''),
      (''fsr_compatible'', dict_get_default e ''fsr_compatible'' (JBool True)),
      (''name'', dict_get e ''name''),
      (''sizeGb'', dict_get e ''sizeGb''),
      (''path'', dict_get e ''path''),
      (''openVrDllPaths'', dict_get e ''openVrDllPaths''),
      (''openVrDllPathsSelected'', dict_get e ''openVrDllPathsSelected''),
      (''openVr'', dict_get e ''openVr''),
      (''SizeOnDisk'', dict_get e ''SizeOnDisk''),
      (''appid'', dict_get e ''appid'')]"

definition reduce_steam_apps_for_export :: "(bool \<Rightarrow> entry \<Rightarrow> jv) \<Rightarrow> apps \<Rightarrow> apps" where
  "reduce_steam_apps_for_export js steam_apps =
     fold (\<lambda>(app_id, e) reduced_dict. AList.update app_id (reduce_entry js e) reduced_dict)
       steam_apps []"

text \<open>
  \<^verbatim>\<open>_load_steam_apps_with_fsr_settings\<close>: every cached entry gets its complete settings
  under \<^verbatim>\<open>settings\<close>.
\<close>

definition load_steam_apps_with_fsr_settings :: "lib_env \<Rightarrow> app_settings \<Rightarrow> apps" where
  "load_steam_apps_with_fsr_settings env s =
     map (\<lambda>(app_id, e). (app_id, AList.update ''settings'' (settings_to_js env False e) e))
       (load_steam_apps s)"

subsection \<open>Saving the library\<close>

text \<open>\<^verbatim>\<open>if entry.get('_showDetails'): entry.pop('_showDetails')\<close>.\<close>

definition pop_show_details :: "entry \<Rightarrow> entry" where
  "pop_show_details e =
     (if truthy (dict_get e ''_showDetails'') then AList.delete ''_showDetails'' e else e)"

text \<open>\<^verbatim>\<open>entry.get('userApp', False) is True or app_id.startswith(USER_APP_PREFIX)\<close>.\<close>

definition is_user_app :: "string \<Rightarrow> string \<Rightarrow> entry \<Rightarrow> bool" where
  "is_user_app P app_id e =
     (dict_get_default e ''userApp'' (JBool False) = JBool True \<or> prefix P app_id)"

text \<open>
  The first loop of \<^verbatim>\<open>_save_steam_lib\<close>: it returns the dict with the entries as the loop
  left them and the set \<^verbatim>\<open>remove_ids\<close>. The set is a list without repetition, in the
  order in which the loop met the identifiers (Python fixes no order for a set).
\<close>

fun mark_user_apps :: "string \<Rightarrow> apps \<Rightarrow> apps \<times> string list" where
  "mark_user_apps P [] = ([], [])"
| "mark_user_apps P ((app_id, e) # items) =
     (let (items1, remove_ids) = mark_user_apps P items in
      if app_id = [] then ((app_id, e) # items1, remove_ids)
      else
        (let e1 = pop_show_details e in
         ((app_id, e1) # items1,
          if is_user_app P app_id e1 then List.insert app_id remove_ids else remove_ids)))"

text \<open>
  The second loop: \<^verbatim>\<open>user_entry = steam_apps.pop(app_id)\<close>, which raises \<^verbatim>\<open>KeyError\<close> on
  a missing key, and \<^verbatim>\<open>AppSettings.user_apps[app_id] = user_entry\<close>. It returns the
  exception that stopped it, if any, and the two dicts as it left them.
\<close>

fun move_user_apps :: "string list \<Rightarrow> apps \<Rightarrow> apps \<Rightarrow> py_error option \<times> apps \<times> apps" where
  "move_user_apps [] steam_apps registry = (None, steam_apps, registry)"
| "move_user_apps (app_id # ids) steam_apps registry =
     (case map_of steam_apps app_id of
        None \<Rightarrow> (Some (KeyError app_id), steam_apps, registry)
      | Some user_entry \<Rightarrow>
          move_user_apps ids (AList.delete app_id steam_apps)
            (AList.update app_id user_entry registry))"

text \<open>
  \<^verbatim>\<open>_save_steam_lib\<close>. The first loop changes the entries of \<^verbatim>\<open>steam_apps\<close> in place. An
  entry that is the very object the registry holds under the same identifier changes in
  the registry too; \<open>aliased\<close> lists the identifiers of these entries (the caller
  \<^verbatim>\<open>get_steam_lib_fn\<close> has put every entry of the registry into \<^verbatim>\<open>steam_apps\<close> with
  \<^verbatim>\<open>update\<close>, which copies references). The result is the exception, if any, the dict
  \<^verbatim>\<open>steam_apps\<close> as the caller sees it afterwards, and the settings.
\<close>

definition save_steam_lib ::
  "lib_env \<Rightarrow> string list \<Rightarrow> apps \<Rightarrow> app_settings \<Rightarrow> py_error option \<times> apps \<times> app_settings" where
  "save_steam_lib env aliased steam_apps s =
     (let (steam_apps1, remove_ids) = mark_user_apps (USER_APP_PREFIX env) steam_apps;
          registry1 = map (\<lambda>(app_id, e).
                             (app_id, if app_id \<in> set aliased \<and> app_id \<noteq> []
                                      then pop_show_details e else e)) (user_apps s)
      in case move_user_apps remove_ids steam_apps1 registry1 of
           (Some err, steam_apps2, registry2) \<Rightarrow> (Some err, steam_apps2, s\<lparr>user_apps := registry2\<rparr>)
         | (None, steam_apps2, registry2) \<Rightarrow>
             (None, steam_apps2,
              AppSettings_save
                (save_steam_apps (reduce_steam_apps_for_export (settings_to_js env) steam_apps2)
                   (s\<lparr>user_apps := registry2\<rparr>))))"

subsection \<open>Refreshing the library\<close>

text \<open>The text \<^verbatim>\<open>str(e)\<close> of an exception; for a \<^verbatim>\<open>KeyError\<close> it is the key in quotes.\<close>

definition error_text :: "py_error \<Rightarrow> string" where
  "error_text err = (case err of TypeError \<Rightarrow> ''TypeError'' | KeyError k \<Rightarrow> [CHR 0x27] @ k @ [CHR 0x27])"

text \<open>
  Lines 98 to 113 of \<^verbatim>\<open>get_steam_lib_fn\<close>: the library is read, copied and relieved of
  its helper entry; an exception on the way is caught and its text returned.
\<close>

definition read_steam_apps :: "lib_env \<Rightarrow> string + apps" where
  "read_steam_apps env =
     (case read_steam_library env of
        Inl e \<Rightarrow> Inl e
      | Inr lib \<Rightarrow>
          (let steam_apps = dict_update [] lib in
           if has_key steam_apps (STEAM_LIBRARY_FOLDERS env)
           then Inr (AList.delete (STEAM_LIBRARY_FOLDERS env) steam_apps)
           else Inl (error_text (KeyError (STEAM_LIBRARY_FOLDERS env)))))"

text \<open>
  Lines 120 to 123: the loop over the cached entries. A subscript on a missing key raises
  \<^verbatim>\<open>KeyError\<close>.
\<close>

fun restore_cached :: "apps \<Rightarrow> apps \<Rightarrow> py_error + apps" where
  "restore_cached [] steam_apps = Inr steam_apps"
| "restore_cached ((app_id, cached) # items) steam_apps =
     (case map_of steam_apps app_id of
        None \<Rightarrow> restore_cached items steam_apps
      | Some e \<Rightarrow>
          (case map_of cached ''settings'' of
             None \<Rightarrow> Inl (KeyError ''settings'')
           | Some settings \<Rightarrow>
               (case map_of cached ''openVrDllPathsSelected'' of
                  None \<Rightarrow> Inl (KeyError ''openVrDllPathsSelected'')
                | Some selected \<Rightarrow>
                    restore_cached items
                      (AList.update app_id
                         (AList.update ''openVrDllPathsSelected'' selected
                            (AList.update ''settings'' settings e))
                         steam_apps))))"

text \<open>
  Lines 118 to 127: the scanned library \<open>scanned\<close> (what
  \<^verbatim>\<open>ManifestWorker.update_steam_apps\<close> returned) gets the cached settings and selections,
  the settings are loaded and the user apps are added. The result is the merged dict and
  the settings as loaded.
\<close>

definition merge_steam_apps :: "lib_env \<Rightarrow> apps \<Rightarrow> app_settings \<Rightarrow> py_error + (apps \<times> app_settings)" where
  "merge_steam_apps env scanned s =
     (case restore_cached (load_steam_apps_with_fsr_settings env s) scanned of
        Inl err \<Rightarrow> Inl err
      | Inr steam_apps \<Rightarrow>
          (let s1 = AppSettings_load s in Inr (dict_update steam_apps (user_apps s1), s1)))"

definition get_steam_lib_fn :: "lib_env \<Rightarrow> app_settings \<Rightarrow> (py_error + jv) \<times> app_settings" where
  "get_steam_lib_fn env s =
     (case read_steam_apps env of
        Inl e \<Rightarrow> (Inr (response False (''Error getting Steam Lib: '' @ e)), s)
      | Inr steam_apps0 \<Rightarrow>
          (case merge_steam_apps env (update_steam_apps env steam_apps0) s of
             Inl err \<Rightarrow> (Inl err, s)
           | Inr (steam_apps, s1) \<Rightarrow>
               (case save_steam_lib env (map fst (user_apps s1)) steam_apps s1 of
                  (Some err, steam_apps2, s2) \<Rightarrow>
                    (Inr (response False (''Error saving Steam Lib data: '' @ error_text err)), s2)
                | (None, steam_apps2, s2) \<Rightarrow>
                    (Inr (JDict [(''result'', JBool True), (''data'', apps_json steam_apps2)]), s2))))"

text \<open>The entries of the library a successful response carries under \<^verbatim>\<open>data\<close>.\<close>

definition resp_data :: "(py_error + jv) \<Rightarrow> (string \<times> jv) list" where
  "resp_data out =
     (case out of
        Inl e \<Rightarrow> []
      | Inr r \<Rightarrow> (case resp_get r ''data'' of JDict d \<Rightarrow> d | _ \<Rightarrow> []))"

text \<open>A library, a disk cache and a registry to run the refresh on.\<close>

definition example_scanned :: apps where
  "example_scanned =
     [(''250820'', [(''appid'', JStr ''250820''), (''name'', JStr ''SteamVR''),
                    (''sizeGb'', JInt 5),
                    (''openVrDllPaths'', JList [JStr ''/steamvr/bin/openvr_api.dll'']),
                    (''openVrDllPathsSelected'', JList [JStr ''/steamvr/bin/openvr_api.dll'']),
                    (''_showDetails'', JBool True)]),
      (''546560'', [(''appid'', JStr ''546560''), (''name'', JStr ''Alyx''),
                    (''openVrDllPaths'', JList [])])]"

definition example_lib_env :: lib_env where
  "example_lib_env =
     \<lparr> read_steam_library = Inr ((''libraryfolders'', []) # example_scanned),
       STEAM_LIBRARY_FOLDERS = ''libraryfolders'',
       update_steam_apps = (\<lambda>a. a),
       settings_to_js = (\<lambda>export e. JList [dict_get e ''settings'', JBool export]),
       USER_APP_PREFIX = ''#Usr'' \<rparr>"

definition example_library_settings :: app_settings where
  "example_library_settings =
     \<lparr> user_apps = [],
       user_app_counter = 0,
       steam_apps_file =
         [(''250820'', [(''settings'', JStr ''sharp''), (''name'', JStr ''Old name''),
                        (''openVrDllPathsSelected'', JList [])]),
          (''999'', [(''settings'', JStr ''soft''), (''name'', JStr ''Gone''),
                     (''openVrDllPathsSelected'', JList [])])],
       settings_file =
         ([(''#Usr001'', [(''appid'', JStr ''#Usr001''), (''name'', JStr ''Mine''),
                          (''userApp'', JBool True), (''_showDetails'', JBool True)])], 1) \<rparr>"



section \<open>The installation state machine\<close>

text \<open>
  Modelled from the spec: the toggle operation \<^verbatim>\<open>toggle_mod_install_fn\<close>, which the
  tests call, and the methods \<^verbatim>\<open>install\<close> and \<^verbatim>\<open>uninstall\<close> of the mod classes are not
  among the sources. The definitions below follow section 4.3 of the specification step
  by step, for one host directory and one mod type. A host directory is the set of its
  files (name to content) with the flags the steps ask for and the state and version the
  manifest entry records for it; a mod type gives the name of its target binary, its
  payload, and the name and the rendered text of its config file.
\<close>

datatype install_state = Absent | Installed

datatype install_error = PathUnavailable

datatype install_warning = BackupCollision

record mod_type_info =
  target_name :: string
  payload :: string
  cfg_name :: string
  cfg_text :: string
  mod_version :: string

record host_dir =
  dir_exists :: bool
  dir_writable :: bool
  dir_files :: "string \<rightharpoonup> string"
  inst_state :: install_state
  recorded_version :: string

text \<open>
  Modelled from the spec: the reserved backup name \<^verbatim>\<open><original-stem>.orig<ext>\<close>, the
  extension being the part of the name from its last dot on (none when the name has no
  dot after its first character).
\<close>

definition split_ext :: "string \<Rightarrow> string \<times> string" where
  "split_ext name =
     (let ext = rev (takeWhile (\<lambda>c. c \<noteq> CHR ''.'') (rev name));
          stem = take (length name - length ext - 1) name
      in if CHR ''.'' \<in> set name \<and> stem \<noteq> [] then (stem, CHR ''.'' # ext) else (name, []))"

definition backup_name :: "string \<Rightarrow> string" where
  "backup_name name = (case split_ext name of (stem, ext) \<Rightarrow> stem @ ''.orig'' @ ext)"

text \<open>
  Modelled from the spec: transition \<^verbatim>\<open>install\<close>, steps 1 to 5. A backup that already
  exists is trusted: the collision is a warning, and the file in place is overwritten
  without a new backup.
\<close>

definition install_mod ::
  "mod_type_info \<Rightarrow> host_dir \<Rightarrow> (install_error + install_warning list) \<times> host_dir" where
  "install_mod m h =
     (if \<not> (dir_exists h \<and> dir_writable h) then (Inl PathUnavailable, h)
      else
        (let target = target_name m;
             backup = backup_name target;
             (warnings, files1) =
               (case dir_files h target of
                  None \<Rightarrow> ([], dir_files h)
                | Some original \<Rightarrow>
                    (case dir_files h backup of
                       Some trusted \<Rightarrow> ([BackupCollision], dir_files h)
                     | None \<Rightarrow> ([], (dir_files h)(target := None, backup \<mapsto> original))));
             files2 = files1(target \<mapsto> payload m);
             files3 = files2(cfg_name m \<mapsto> cfg_text m)
         in (Inr warnings,
             h\<lparr>dir_files := files3, inst_state := Installed, recorded_version := mod_version m\<rparr>)))"

text \<open>Modelled from the spec: transition \<^verbatim>\<open>uninstall\<close>, steps 1 to 3.\<close>

definition uninstall_mod ::
  "mod_type_info \<Rightarrow> host_dir \<Rightarrow> (install_error + install_warning list) \<times> host_dir" where
  "uninstall_mod m h =
     (let target = target_name m;
          backup = backup_name target;
          files1 = (dir_files h)(cfg_name m := None);
          files2 =
            (case files1 backup of
               Some original \<Rightarrow> files1(backup := None, target \<mapsto> original)
             | None \<Rightarrow> files1(target := None))
      in (Inr [], h\<lparr>dir_files := files2, inst_state := Absent, recorded_version := []\<rparr>))"

text \<open>
  Modelled from the spec: \<^verbatim>\<open>toggle_install\<close> flips the state, installing from \<open>Absent\<close>
  and uninstalling from \<open>Installed\<close>.
\<close>

definition toggle_install ::
  "mod_type_info \<Rightarrow> host_dir \<Rightarrow> (install_error + install_warning list) \<times> host_dir" where
  "toggle_install m h =
     (case inst_state h of Absent \<Rightarrow> install_mod m h | Installed \<Rightarrow> uninstall_mod m h)"

definition toggle_ok :: "(install_error + install_warning list) \<Rightarrow> bool" where
  "toggle_ok r = (case r of Inl e \<Rightarrow> False | Inr warnings \<Rightarrow> True)"

text \<open>The upscaling mod and a game directory that holds the runtime's own library.\<close>

definition example_mod_type :: mod_type_info where
  "example_mod_type =
     \<lparr> target_name = ''openvr_api.dll'', payload = ''the mod payload, more than fifty bytes long'',
       cfg_name = ''openvr_mod.cfg'', cfg_text = ''enabled=true'', mod_version = ''2.0'' \<rparr>"

definition example_host_dir :: host_dir where
  "example_host_dir =
     \<lparr> dir_exists = True, dir_writable = True,
       dir_files = [''openvr_api.dll'' \<mapsto> ''0123456789''],
       inst_state = Absent, recorded_version = [] \<rparr>"

section \<open>Mod data directories: properties\<close>

text \<open>
  C6. For every directory path and every mod type of the table, \<open>check_mod_data_dir\<close>
  returns \<open>True\<close> exactly when the path is given and non-empty, the directory exists and
  both the mod's binary (\<open>DLL_NAME\<close>) and its config file (\<open>CFG_FILE\<close>) exist directly
  inside it; in every other case it returns \<open>False\<close>.
\<close>

theorem check_mod_data_dir_iff:
  assumes "mod_types env mod_type = Some cls"
  shows "check_mod_data_dir env fs custom_data_dir mod_type =
           Inr (\<exists>d. custom_data_dir = Some d \<and> d \<noteq> [] \<and> path_exists fs d
                  \<and> path_exists fs (path_join fs d (DLL_NAME env (cls [])))
                  \<and> path_exists fs (path_join fs d (CFG_FILE env (cls []))))"
  using assms
  by (cases custom_data_dir) (simp_all add: check_mod_data_dir_def get_mod_def Let_def)

theorem check_mod_data_dir_iff_witness:
  "mod_types example_mod_env 0 = Some (\<lambda>manifest. ())
   \<and> check_mod_data_dir example_mod_env example_fs (Some ''/game'') 0 = Inr True
   \<and> check_mod_data_dir example_mod_env example_fs (Some ''/other'') 0 = Inr False
   \<and> check_mod_data_dir example_mod_env example_fs (Some '''') 0 = Inr False
   \<and> check_mod_data_dir example_mod_env example_fs None 0 = Inr False"
proof -
  have t: "mod_types example_mod_env 0 = Some (\<lambda>manifest. ())"
    by (simp add: example_mod_env_def)
  show ?thesis
    using check_mod_data_dir_iff [OF t, of example_fs "Some ''/game''"]
      check_mod_data_dir_iff [OF t, of example_fs "Some ''/other''"]
      check_mod_data_dir_iff [OF t, of example_fs "Some ''''"]
      check_mod_data_dir_iff [OF t, of example_fs None]
    by (simp add: example_mod_env_def example_fs_def)
qed

section \<open>The mod operations: properties\<close>

lemma map_of_set_fsr_version:
  "map_of (manifest (set_fsr_version v fsr)) ''fsrVersion'' = Some v"
  by (simp add: set_fsr_version_def update_conv')



text \<open>
  C4. Provided the mod's constructor and its install and uninstall methods leave the
  manifest's \<^verbatim>\<open>fsrVersion\<close> as they found it when they fail (the constructor always): after
  a successful install the returned manifest's \<^verbatim>\<open>fsrVersion\<close> is the probed version, after
  a successful uninstall it is the empty string, and after a failed install or uninstall
  it is what the caller passed in (absent if it was absent).
\<close>

theorem fsr_version_recorded:
  fixes ops :: "('x, 'w) fsr_ops"
  assumes ctor: "\<forall>m0. map_of (manifest (FsrMod ops m0)) ''fsrVersion'' = map_of m0 ''fsrVersion''"
    and inst: "\<forall>w0 fsr. \<not> fst (install ops w0 fsr) \<longrightarrow>
        map_of (manifest (fst (snd (install ops w0 fsr)))) ''fsrVersion''
          = map_of (manifest fsr) ''fsrVersion''"
    and uninst: "\<forall>w0 fsr. \<not> fst (uninstall ops w0 fsr) \<longrightarrow>
        map_of (manifest (fst (snd (uninstall ops w0 fsr)))) ''fsrVersion''
          = map_of (manifest fsr) ''fsrVersion''"
  shows "(case install ops w (FsrMod ops m) of (ok, fsr1, w1) \<Rightarrow>
            map_of (resp_manifest (fst (install_fsr_fn ops w m))) ''fsrVersion''
              = (if ok then Some (get_fsr_version ops w1 fsr1) else map_of m ''fsrVersion''))
       \<and> (case uninstall ops w (FsrMod ops m) of (ok, fsr1, w1) \<Rightarrow>
            map_of (resp_manifest (fst (uninstall_fsr_fn ops w m))) ''fsrVersion''
              = (if ok then Some (JStr []) else map_of m ''fsrVersion''))"
proof (intro conjI)
  obtain ok fsr1 w1 where i: "install ops w (FsrMod ops m) = (ok, fsr1, w1)"
    by (cases "install ops w (FsrMod ops m)") auto
  have "\<not> ok \<Longrightarrow> map_of (manifest fsr1) ''fsrVersion'' = map_of m ''fsrVersion''"
    using inst [rule_format, of w "FsrMod ops m"] ctor i by simp
  then show "case install ops w (FsrMod ops m) of (ok, fsr1, w1) \<Rightarrow>
            map_of (resp_manifest (fst (install_fsr_fn ops w m))) ''fsrVersion''
              = (if ok then Some (get_fsr_version ops w1 fsr1) else map_of m ''fsrVersion'')"
    using i
    by (simp add: install_fsr_fn_def Let_def resp_manifest_def resp_get_def dict_get_def
        map_of_set_fsr_version)
next
  obtain ok fsr1 w1 where i: "uninstall ops w (FsrMod ops m) = (ok, fsr1, w1)"
    by (cases "uninstall ops w (FsrMod ops m)") auto
  have "\<not> ok \<Longrightarrow> map_of (manifest fsr1) ''fsrVersion'' = map_of m ''fsrVersion''"
    using uninst [rule_format, of w "FsrMod ops m"] ctor i by simp
  then show "case uninstall ops w (FsrMod ops m) of (ok, fsr1, w1) \<Rightarrow>
            map_of (resp_manifest (fst (uninstall_fsr_fn ops w m))) ''fsrVersion''
              = (if ok then Some (JStr []) else map_of m ''fsrVersion'')"
    using i
    by (simp add: uninstall_fsr_fn_def Let_def resp_manifest_def resp_get_def dict_get_def
        map_of_set_fsr_version)
qed

theorem fsr_version_recorded_witness:
  "map_of (resp_manifest (fst (install_fsr_fn example_ops [] example_manifest))) ''fsrVersion''
     = Some (JStr ''2.0'')
   \<and> map_of (resp_manifest (fst (install_fsr_fn example_ops [JStr ''/game''] example_manifest)))
       ''fsrVersion'' = Some (JStr ''1.0'')
   \<and> map_of (resp_manifest (fst (uninstall_fsr_fn example_ops [JStr ''/game''] example_manifest)))
       ''fsrVersion'' = Some (JStr [])
   \<and> map_of (resp_manifest (fst (uninstall_fsr_fn example_ops [] example_manifest)))
       ''fsrVersion'' = Some (JStr ''1.0'')"
proof -
  have ctor: "\<forall>m0. map_of (manifest (FsrMod example_ops m0)) ''fsrVersion'' = map_of m0 ''fsrVersion''"
    by (simp add: example_ops_def)
  have inst: "\<forall>w0 fsr. \<not> fst (install example_ops w0 fsr) \<longrightarrow>
        map_of (manifest (fst (snd (install example_ops w0 fsr)))) ''fsrVersion''
          = map_of (manifest fsr) ''fsrVersion''"
    by (simp add: example_ops_def)
  have uninst: "\<forall>w0 fsr. \<not> fst (uninstall example_ops w0 fsr) \<longrightarrow>
        map_of (manifest (fst (snd (uninstall example_ops w0 fsr)))) ''fsrVersion''
          = map_of (manifest fsr) ''fsrVersion''"
    by (simp add: example_ops_def)
  show ?thesis
    using fsr_version_recorded [OF ctor inst uninst, of "[]" example_manifest]
      fsr_version_recorded [OF ctor inst uninst, of "[JStr ''/game'']" example_manifest]
    by (simp add: example_ops_def example_manifest_def dict_get_def)
qed

section \<open>Decimal formatting: properties\<close>

lemma digit_char_val: "d < 10 \<Longrightarrow> of_char (digit_char d) = (48::nat) + d"
proof -
  assume "d < 10"
  then have "d \<in> {0,1,2,3,4,5,6,7,8,9}" by auto
  then show ?thesis by (auto simp: digit_char_def)
qed

lemma digit_char_not_minus: "d < 10 \<Longrightarrow> digit_char d \<noteq> CHR ''-''"
proof -
  assume "d < 10"
  then have "d \<in> {0,1,2,3,4,5,6,7,8,9}" by auto
  then show ?thesis by (auto simp: digit_char_def)
qed

lemma dec_val_snoc: "dec_val (s @ [c]) = 10 * dec_val s + (of_char c - 48)"
  by (simp add: dec_val_def)

lemma dec_val_digits: "dec_val (digits n) = n"
proof (induction n rule: digits.induct)
  case (1 n)
  show ?case
  proof (cases "n < 10")
    case True
    then show ?thesis by (subst digits.simps) (simp add: dec_val_def digit_char_val)
  next
    case False
    then have "dec_val (digits n) = 10 * dec_val (digits (n div 10)) + (of_char (digit_char (n mod 10)) - 48)"
      by (subst digits.simps) (simp add: dec_val_snoc)
    also have "\<dots> = 10 * (n div 10) + n mod 10"
      using 1 False by (simp add: digit_char_val)
    finally show ?thesis by simp
  qed
qed

lemma dec_val_replicate_zero: "dec_val (replicate k (CHR ''0'') @ s) = dec_val s"
proof -
  have "foldl (\<lambda>a c. 10 * a + (of_char c - 48)) 0 (replicate k (CHR ''0'')) = (0::nat)"
    by (induction k) simp_all
  then show ?thesis by (simp add: dec_val_def)
qed

lemma dec_val_zero_pad: "dec_val (zero_pad w s) = dec_val s"
  by (simp add: zero_pad_def dec_val_replicate_zero)

lemma digits_nonempty: "digits n \<noteq> []"
  by (subst digits.simps) simp

lemma hd_digits_not_minus: "hd (digits n) \<noteq> CHR ''-''"
proof (induction n rule: digits.induct)
  case (1 n)
  show ?case
  proof (cases "n < 10")
    case True then show ?thesis by (subst digits.simps) (simp add: digit_char_not_minus)
  next
    case False
    then have "hd (digits n) = hd (digits (n div 10))"
      by (subst digits.simps) (simp add: digits_nonempty)
    then show ?thesis using 1 False by simp
  qed
qed

lemma hd_zero_pad_not_minus: "hd (zero_pad w (digits n)) \<noteq> CHR ''-''"
  by (cases "w - length (digits n)") (simp_all add: zero_pad_def hd_digits_not_minus)

lemma zero_pad_nonempty: "zero_pad w (digits n) \<noteq> []"
  by (simp add: zero_pad_def digits_nonempty)

lemma parse_int_format_03d: "parse_int (format_03d n) = n"
proof (cases "n < 0")
  case True
  then show ?thesis
    by (simp add: format_03d_def parse_int_def dec_val_zero_pad dec_val_digits)
next
  case False
  obtain c cs where z: "zero_pad 3 (digits (nat n)) = c # cs"
    using zero_pad_nonempty [of 3 "nat n"] by (cases "zero_pad 3 (digits (nat n))") auto
  have "c \<noteq> CHR ''-''" using hd_zero_pad_not_minus [of 3 "nat n"] z by simp
  moreover have "dec_val (c # cs) = nat n"
    using z dec_val_zero_pad [of 3 "digits (nat n)"] dec_val_digits by simp
  ultimately show ?thesis using False z
    by (simp add: format_03d_def parse_int_def)
qed

lemma format_03d_inj: "format_03d m = format_03d n \<Longrightarrow> m = n"
  by (metis parse_int_format_03d)

lemma user_app_id_inj: "user_app_id P m = user_app_id P n \<Longrightarrow> m = n"
  by (simp add: user_app_id_def format_03d_inj)

section \<open>The user registry: properties\<close>

lemma response_msg: "resp_get (response ok msg) ''msg'' = JStr msg"
  by (simp add: response_def resp_get_def dict_get_def)

lemma response_result: "resp_get (response ok msg) ''result'' = JBool ok"
  by (simp add: response_def resp_get_def dict_get_def)

text \<open>
  C7. For an application dict whose identifier (\<^verbatim>\<open>app.get('appid')\<close>, a JSON scalar or
  absent) is not a key of the user registry, \<open>remove_custom_app_fn\<close> answers with
  \<^verbatim>\<open>result\<close> false and a message and leaves the settings, the registry among them, as they
  were; when the identifier is a key of the registry, exactly that entry is removed from
  the registry, the counter is kept and the answer has \<^verbatim>\<open>result\<close> true.
\<close>

theorem remove_custom_app_fn_spec:
  assumes "hashable (dict_get app ''appid'')"
  shows "(if (\<exists>k. dict_get app ''appid'' = JStr k \<and> has_key (user_apps s) k)
          then (\<exists>k msg. dict_get app ''appid'' = JStr k
                  \<and> fst (remove_custom_app_fn str app s) = Inr (response True msg)
                  \<and> user_apps (snd (remove_custom_app_fn str app s)) = AList.delete k (user_apps s)
                  \<and> map_of (user_apps (snd (remove_custom_app_fn str app s)))
                      = (map_of (user_apps s))(k := None)
                  \<and> user_app_counter (snd (remove_custom_app_fn str app s)) = user_app_counter s)
          else (\<exists>msg. msg \<noteq> [] \<and> remove_custom_app_fn str app s = (Inr (response False msg), s)))"
proof (cases "dict_get app ''appid''")
  case (JStr k)
  show ?thesis
  proof (cases "map_of (user_apps s) k")
    case None
    then show ?thesis using JStr
      by (auto simp add: remove_custom_app_fn_def has_key_def)
  next
    case (Some e)
    then show ?thesis using JStr
      by (auto simp add: remove_custom_app_fn_def has_key_def AppSettings_save_def delete_conv')
  qed
qed (use assms in \<open>auto simp add: remove_custom_app_fn_def\<close>)

theorem remove_custom_app_fn_spec_witness:
  "hashable (dict_get [(''appid'', JStr ''#Usr001'')] ''appid'')
   \<and> user_apps (snd (remove_custom_app_fn example_str [(''appid'', JStr ''#Usr001'')] example_settings)) = []
   \<and> fst (remove_custom_app_fn example_str [(''appid'', JStr ''#Usr001'')] example_settings)
       = Inr (response True ''App entry Old #Usr001 created.'')
   \<and> remove_custom_app_fn example_str [(''appid'', JStr ''#Usr002'')] example_settings
       = (Inr (response False ''Could not find app with Id: #Usr002''), example_settings)
   \<and> remove_custom_app_fn example_str [] example_settings
       = (Inr (response False ''Could not find app with Id: None''), example_settings)"
proof -
  have h: "hashable (dict_get [(''appid'', JStr ''#Usr001'')] ''appid'')"
    by (simp add: dict_get_def)
  show ?thesis
    using h remove_custom_app_fn_spec [OF h, of example_settings example_str]
    by (simp add: remove_custom_app_fn_def example_settings_def example_str_def dict_get_def
        AppSettings_save_def has_key_def)
qed

lemma succeeded_response: "succeeded (Inr (response ok msg)) = ok"
  by (simp add: succeeded_def response_result)

lemma not_succeeded_Inl: "\<not> succeeded (Inl e)"
  by (simp add: succeeded_def)

text \<open>
  The three outcomes of \<open>add_custom_app_fn\<close>: it rejects the request for one of the four
  reasons and keeps the settings, it raises on a path that is no string, or it registers
  the entry.
\<close>

lemma add_custom_app_fn_outcome:
  "((dict_get app ''path'' = JNone
      \<or> (\<exists>p. dict_get app ''path'' = JStr p
            \<and> (p = [] \<or> \<not> path_exists fs p
                \<or> find (\<lambda>(app_id, e). dict_get e ''path'' = JStr (as_posix fs p)) (user_apps s) \<noteq> None
                \<or> find_open_vr_dll env p = [])))
     \<and> (\<exists>msg. msg \<noteq> [] \<and> add_custom_app_fn P fs env app s = (Inr (response False msg), s)))
   \<or> (dict_get app ''path'' \<noteq> JNone \<and> (\<forall>p. dict_get app ''path'' \<noteq> JStr p)
        \<and> add_custom_app_fn P fs env app s = (Inl TypeError, s))
   \<or> ((\<exists>p. dict_get app ''path'' = JStr p \<and> p \<noteq> [] \<and> path_exists fs p
            \<and> find (\<lambda>(app_id, e). dict_get e ''path'' = JStr (as_posix fs p)) (user_apps s) = None
            \<and> find_open_vr_dll env p \<noteq> [])
        \<and> (\<exists>msg e. add_custom_app_fn P fs env app s =
             (Inr (response True msg),
              AppSettings_save (s\<lparr>user_app_counter := user_app_counter s + 1,
                 user_apps := AList.update (user_app_id P (user_app_counter s + 1)) e (user_apps s)\<rparr>))
            \<and> dict_get e ''appid'' = JStr (user_app_id P (user_app_counter s + 1))
            \<and> dict_get e ''userApp'' = JBool True))"
  (is "(?rejected \<and> ?fails) \<or> ?raises \<or> (?accepted \<and> ?registers)")
proof (cases "dict_get app ''path''")
  case JNone
  then have "add_custom_app_fn P fs env app s = (Inr (response False ''No valid path provided.''), s)"
    by (simp add: add_custom_app_fn_def)
  then have f: ?fails by (intro exI [of _ "''No valid path provided.''"]) simp
  have r: ?rejected using JNone by simp
  show ?thesis by (rule disjI1, rule conjI, rule r, rule f)
next
  case (JStr p)
  show ?thesis
  proof (cases "p = []")
    case True
    then have "add_custom_app_fn P fs env app s = (Inr (response False ''No valid path provided.''), s)"
      using JStr by (simp add: add_custom_app_fn_def)
    then have f: ?fails by (intro exI [of _ "''No valid path provided.''"]) simp
    have r: ?rejected using JStr True by simp
    show ?thesis by (rule disjI1, rule conjI, rule r, rule f)
  next
    case nonempty: False
    show ?thesis
    proof (cases "path_exists fs p")
      case False
      then have "add_custom_app_fn P fs env app s
          = (Inr (response False ''Provided path does not exist.''), s)"
        using JStr nonempty by (simp add: add_custom_app_fn_def)
      then have f: ?fails by (intro exI [of _ "''Provided path does not exist.''"]) simp
      have r: ?rejected using JStr False by simp
      show ?thesis by (rule disjI1, rule conjI, rule r, rule f)
    next
      case ex: True
      show ?thesis
      proof (cases "find (\<lambda>(app_id, e). dict_get e ''path'' = JStr (as_posix fs p)) (user_apps s)")
        case (Some hit)
        obtain app_id e where hit: "hit = (app_id, e)" by (cases hit) auto
        let ?msg = "''Entry already exists as '' @ py_str env (dict_get e ''name'')
                      @ '', Id: '' @ app_id @ ''.''"
        have "add_custom_app_fn P fs env app s = (Inr (response False ?msg), s)"
          using JStr nonempty ex Some hit by (simp add: add_custom_app_fn_def)
        then have f: ?fails by (intro exI [of _ ?msg]) simp
        have r: ?rejected using JStr Some by simp
        show ?thesis by (rule disjI1, rule conjI, rule r, rule f)
      next
        case None
        show ?thesis
        proof (cases "find_open_vr_dll env p = []")
          case True
          let ?msg = "''No OpenVR dll found in: '' @ as_posix fs p @ '' or any sub directory.''"
          have "add_custom_app_fn P fs env app s = (Inr (response False ?msg), s)"
            using JStr nonempty ex None True by (simp add: add_custom_app_fn_def)
          then have f: ?fails by (intro exI [of _ ?msg]) simp
          have r: ?rejected using JStr True by simp
          show ?thesis by (rule disjI1, rule conjI, rule r, rule f)
        next
          case False
          obtain cfg_results f where rc:
            "read_cfgs env fs (FsrSettings env) (find_open_vr_dll env p) = (cfg_results, f)"
            by (cases "read_cfgs env fs (FsrSettings env) (find_open_vr_dll env p)") auto
          let ?id = "user_app_id P (user_app_counter s + 1)"
          let ?e = "user_app_entry env fs app ?id p (find_open_vr_dll env p) cfg_results f"
          have "add_custom_app_fn P fs env app s =
            (Inr (response True (''App entry '' @ ?id @ '' created.'')),
             AppSettings_save (s\<lparr>user_app_counter := user_app_counter s + 1,
               user_apps := AList.update ?id ?e (user_apps s)\<rparr>))"
            using JStr nonempty ex None False rc by (simp add: add_custom_app_fn_def Let_def)
          moreover have "dict_get ?e ''appid'' = JStr ?id"
            by (simp add: user_app_entry_def dict_get_def)
          moreover have "dict_get ?e ''userApp'' = JBool True"
            by (simp add: user_app_entry_def dict_get_def)
          ultimately have g: ?registers by blast
          have a: ?accepted using JStr nonempty ex None False by simp
          show ?thesis by (rule disjI2, rule disjI2, rule conjI, rule a, rule g)
        qed
      qed
    qed
  qed
qed (simp_all add: add_custom_app_fn_def)

lemma add_custom_app_fn_cases:
  "(\<exists>msg. msg \<noteq> [] \<and> add_custom_app_fn P fs env app s = (Inr (response False msg), s))
   \<or> add_custom_app_fn P fs env app s = (Inl TypeError, s)
   \<or> (\<exists>msg e. add_custom_app_fn P fs env app s =
         (Inr (response True msg),
          AppSettings_save (s\<lparr>user_app_counter := user_app_counter s + 1,
             user_apps := AList.update (user_app_id P (user_app_counter s + 1)) e (user_apps s)\<rparr>))
        \<and> dict_get e ''appid'' = JStr (user_app_id P (user_app_counter s + 1))
        \<and> dict_get e ''userApp'' = JBool True)"
  using add_custom_app_fn_outcome [of app fs s env P] by blast

lemma add_custom_app_fn_step:
  assumes "add_custom_app_fn P fs env app s = (out, s1)"
  shows "(succeeded out \<longrightarrow> user_app_counter s1 = user_app_counter s + 1)
       \<and> (\<not> succeeded out \<longrightarrow> s1 = s)"
  using add_custom_app_fn_cases [of P fs env app s] assms
  by (auto simp add: succeeded_response not_succeeded_Inl AppSettings_save_def)

lemma add_custom_apps_ids:
  "add_custom_apps P calls s = (ids, s') \<Longrightarrow>
     user_app_counter s \<le> user_app_counter s'
     \<and> (\<forall>i \<in> set ids. \<exists>c. user_app_counter s < c \<and> c \<le> user_app_counter s' \<and> i = user_app_id P c)
     \<and> distinct ids"
proof (induction calls arbitrary: s ids s')
  case Nil
  then show ?case by simp
next
  case (Cons call calls)
  obtain fs env app where call: "call = (fs, env, app)" by (cases call) auto
  obtain out s1 where step: "add_custom_app_fn P fs env app s = (out, s1)"
    by (cases "add_custom_app_fn P fs env app s") auto
  obtain ids1 s2 where rest: "add_custom_apps P calls s1 = (ids1, s2)"
    by (cases "add_custom_apps P calls s1") auto
  have ids: "ids = (if succeeded out then [user_app_id P (user_app_counter s1)] else []) @ ids1"
    and s': "s' = s2"
    using Cons.prems call step rest by simp_all
  note IH = Cons.IH [OF rest]
  note st = add_custom_app_fn_step [OF step]
  show ?case
  proof (cases "succeeded out")
    case True
    then have c1: "user_app_counter s1 = user_app_counter s + 1" using st by simp
    have ids': "ids = user_app_id P (user_app_counter s1) # ids1" using ids True by simp
    have le: "user_app_counter s \<le> user_app_counter s'" using IH c1 s' by simp
    have fresh: "user_app_id P (user_app_counter s1) \<notin> set ids1"
    proof
      assume "user_app_id P (user_app_counter s1) \<in> set ids1"
      then obtain c where "user_app_counter s1 < c" "user_app_id P (user_app_counter s1) = user_app_id P c"
        using IH by blast
      then show False using user_app_id_inj by blast
    qed
    have bound: "\<exists>c. user_app_counter s < c \<and> c \<le> user_app_counter s' \<and> i = user_app_id P c"
      if "i \<in> set ids" for i
    proof (cases "i = user_app_id P (user_app_counter s1)")
      case True
      show ?thesis
        using c1 IH s' True by (intro exI [of _ "user_app_counter s1"]) simp
    next
      case False
      then have "i \<in> set ids1" using that ids' by simp
      then obtain c where "user_app_counter s1 < c" "c \<le> user_app_counter s2" "i = user_app_id P c"
        using IH by blast
      then show ?thesis
        using c1 s' by (intro exI [of _ c]) simp
    qed
    have d: "distinct ids" using fresh IH ids' by simp
    show ?thesis
    proof (intro conjI ballI)
      show "user_app_counter s \<le> user_app_counter s'" by (rule le)
      show "distinct ids" by (rule d)
      fix i assume "i \<in> set ids"
      then show "\<exists>c. user_app_counter s < c \<and> c \<le> user_app_counter s' \<and> i = user_app_id P c"
        by (rule bound)
    qed
  next
    case False
    then have "s1 = s" using st by simp
    moreover have "ids = ids1" using ids False by simp
    ultimately show ?thesis using IH s' by simp
  qed
qed


text \<open>
  C10. Whenever \<open>add_custom_app_fn\<close> is given no path or an empty one, a path that does
  not exist, a path some registry entry already has, or a path under which no OpenVR dll
  is found, it answers with \<^verbatim>\<open>result\<close> false and a message and leaves the settings (the
  registry and the counter among them) as they were. Whatever the reason, a call that does
  not succeed leaves the settings unchanged, so the counter moves only in a call that
  succeeds, and then by one.
\<close>

theorem add_custom_app_fn_failure:
  "(dict_get app ''path'' = JNone
      \<or> (\<exists>p. dict_get app ''path'' = JStr p
            \<and> (p = [] \<or> \<not> path_exists fs p
                \<or> (\<exists>(app_id, e) \<in> set (user_apps s). dict_get e ''path'' = JStr (as_posix fs p))
                \<or> find_open_vr_dll env p = []))
     \<longrightarrow> (\<exists>msg. msg \<noteq> [] \<and> add_custom_app_fn P fs env app s = (Inr (response False msg), s)))
   \<and> (\<not> succeeded (fst (add_custom_app_fn P fs env app s))
        \<longrightarrow> snd (add_custom_app_fn P fs env app s) = s)
   \<and> (user_app_counter (snd (add_custom_app_fn P fs env app s)) \<noteq> user_app_counter s
        \<longrightarrow> succeeded (fst (add_custom_app_fn P fs env app s))
            \<and> user_app_counter (snd (add_custom_app_fn P fs env app s)) = user_app_counter s + 1)"
proof (intro conjI impI)
  assume rej: "dict_get app ''path'' = JNone
      \<or> (\<exists>p. dict_get app ''path'' = JStr p
            \<and> (p = [] \<or> \<not> path_exists fs p
                \<or> (\<exists>(app_id, e) \<in> set (user_apps s). dict_get e ''path'' = JStr (as_posix fs p))
                \<or> find_open_vr_dll env p = []))"
  have "\<not> (\<exists>p. dict_get app ''path'' = JStr p \<and> p \<noteq> [] \<and> path_exists fs p
            \<and> find (\<lambda>(app_id, e). dict_get e ''path'' = JStr (as_posix fs p)) (user_apps s) = None
            \<and> find_open_vr_dll env p \<noteq> [])"
    using rej by (fastforce simp add: find_None_iff)
  moreover have "\<not> (dict_get app ''path'' \<noteq> JNone \<and> (\<forall>p. dict_get app ''path'' \<noteq> JStr p))"
    using rej by auto
  ultimately show "\<exists>msg. msg \<noteq> [] \<and> add_custom_app_fn P fs env app s = (Inr (response False msg), s)"
    using add_custom_app_fn_outcome [of app fs s env P] by blast
next
  obtain out s1 where step: "add_custom_app_fn P fs env app s = (out, s1)"
    by (cases "add_custom_app_fn P fs env app s") auto
  note st = add_custom_app_fn_step [OF step]
  {
    assume "\<not> succeeded (fst (add_custom_app_fn P fs env app s))"
    then show "snd (add_custom_app_fn P fs env app s) = s" using st step by simp
  }
  {
    assume "user_app_counter (snd (add_custom_app_fn P fs env app s)) \<noteq> user_app_counter s"
    then show "succeeded (fst (add_custom_app_fn P fs env app s))" using st step by auto
  }
  {
    assume "user_app_counter (snd (add_custom_app_fn P fs env app s)) \<noteq> user_app_counter s"
    then show "user_app_counter (snd (add_custom_app_fn P fs env app s)) = user_app_counter s + 1"
      using st step by auto
  }
qed

text \<open>
  C8. A call of \<open>add_custom_app_fn\<close> that succeeds adds one to the counter and stores the
  new entry in the registry under the prefix followed by the new counter value in
  \<^verbatim>\<open>03d\<close> format, which is also the entry's \<^verbatim>\<open>appid\<close>. The identifiers that the successful
  calls of any sequence of calls generate are pairwise distinct, since the format maps
  different counter values to different strings.
\<close>

theorem add_custom_app_fn_success:
  "(succeeded (fst (add_custom_app_fn P fs env app s)) \<longrightarrow>
      user_app_counter (snd (add_custom_app_fn P fs env app s)) = user_app_counter s + 1
      \<and> (\<exists>e. user_apps (snd (add_custom_app_fn P fs env app s))
                = AList.update (P @ format_03d (user_app_counter s + 1)) e (user_apps s)
              \<and> map_of (user_apps (snd (add_custom_app_fn P fs env app s)))
                   (P @ format_03d (user_app_counter s + 1)) = Some e
              \<and> dict_get e ''appid'' = JStr (P @ format_03d (user_app_counter s + 1))))
   \<and> distinct (fst (add_custom_apps P calls s))
   \<and> (\<forall>m n. P @ format_03d m = P @ format_03d n \<longrightarrow> m = n)"
proof (intro conjI impI allI)
  assume ok: "succeeded (fst (add_custom_app_fn P fs env app s))"
  then obtain msg e where r: "add_custom_app_fn P fs env app s =
         (Inr (response True msg),
          AppSettings_save (s\<lparr>user_app_counter := user_app_counter s + 1,
             user_apps := AList.update (user_app_id P (user_app_counter s + 1)) e (user_apps s)\<rparr>))"
      and e: "dict_get e ''appid'' = JStr (user_app_id P (user_app_counter s + 1))"
    using add_custom_app_fn_cases [of P fs env app s]
    by (auto simp add: succeeded_response not_succeeded_Inl)
  show "user_app_counter (snd (add_custom_app_fn P fs env app s)) = user_app_counter s + 1"
    using r by (simp add: AppSettings_save_def)
  show "\<exists>e. user_apps (snd (add_custom_app_fn P fs env app s))
                = AList.update (P @ format_03d (user_app_counter s + 1)) e (user_apps s)
              \<and> map_of (user_apps (snd (add_custom_app_fn P fs env app s)))
                   (P @ format_03d (user_app_counter s + 1)) = Some e
              \<and> dict_get e ''appid'' = JStr (P @ format_03d (user_app_counter s + 1))"
    using r e by (intro exI [of _ e]) (simp add: AppSettings_save_def user_app_id_def update_conv')
next
  obtain ids s' where "add_custom_apps P calls s = (ids, s')"
    by (cases "add_custom_apps P calls s") auto
  then show "distinct (fst (add_custom_apps P calls s))"
    using add_custom_apps_ids [of P calls s ids s'] by simp
next
  fix m n assume "P @ format_03d m = P @ format_03d n"
  then show "m = n" by (simp add: format_03d_inj)
qed

lemma format_03d_2: "format_03d 2 = ''002''" by code_simp
lemma format_03d_3: "format_03d 3 = ''003''" by code_simp

theorem add_custom_app_fn_failure_witness:
  "add_custom_app_fn ''#Usr'' example_fs example_custom_env [(''path'', JStr ''/missing'')] example_settings
     = (Inr (response False ''Provided path does not exist.''), example_settings)
   \<and> add_custom_app_fn ''#Usr'' example_fs example_custom_env [(''path'', JStr ''/other'')] example_settings
     = (Inr (response False ''Entry already exists as Old, Id: #Usr001.''), example_settings)
   \<and> add_custom_app_fn ''#Usr'' example_fs example_custom_env [(''path'', JStr ''/empty'')] example_settings
     = (Inr (response False ''No OpenVR dll found in: /empty or any sub directory.''), example_settings)
   \<and> add_custom_app_fn ''#Usr'' example_fs example_custom_env [] example_settings
     = (Inr (response False ''No valid path provided.''), example_settings)
   \<and> user_app_counter (snd (add_custom_app_fn ''#Usr'' example_fs example_custom_env
        [(''path'', JStr ''/game'')] example_settings)) = 2"
  using add_custom_app_fn_failure [of "[(''path'', JStr ''/missing'')]" example_fs example_settings
      example_custom_env "''#Usr''"]
    add_custom_app_fn_failure [of "[(''path'', JStr ''/game'')]" example_fs example_settings
      example_custom_env "''#Usr''"]
  by (simp add: add_custom_app_fn_def example_fs_def example_custom_env_def example_settings_def
      example_str_def dict_get_def AppSettings_save_def Let_def)

theorem add_custom_app_fn_success_witness:
  "succeeded (fst (add_custom_app_fn ''#Usr'' example_fs example_custom_env
        [(''path'', JStr ''/game''), (''name'', JStr ''Game'')] example_settings))
   \<and> user_app_counter (snd (add_custom_app_fn ''#Usr'' example_fs example_custom_env
        [(''path'', JStr ''/game''), (''name'', JStr ''Game'')] example_settings)) = 2
   \<and> map fst (user_apps (snd (add_custom_app_fn ''#Usr'' example_fs example_custom_env
        [(''path'', JStr ''/game''), (''name'', JStr ''Game'')] example_settings)))
       = [''#Usr001'', ''#Usr002'']
   \<and> fst (add_custom_apps ''#Usr'' example_calls example_settings) = [''#Usr002'', ''#Usr003'']"
  using add_custom_app_fn_success [of "''#Usr''" example_fs example_custom_env
      "[(''path'', JStr ''/game''), (''name'', JStr ''Game'')]" example_settings example_calls]
  by (simp add: add_custom_app_fn_def example_fs_def example_custom_env_def example_settings_def
      example_str_def dict_get_def dict_get_default_def AppSettings_save_def Let_def
      user_app_id_def format_03d_2 format_03d_3 succeeded_def response_def resp_get_def user_app_entry_def
      example_calls_def)

section \<open>The Steam library: properties\<close>

lemma map_of_fold_update:
  "distinct (map fst xs) \<Longrightarrow>
   map_of (fold (\<lambda>(k, v) acc. AList.update k (f v) acc) xs acc) k
     = (case map_of xs k of Some v \<Rightarrow> Some (f v) | None \<Rightarrow> map_of acc k)"
proof (induction xs arbitrary: acc)
  case Nil
  then show ?case by simp
next
  case (Cons x xs)
  obtain k' v' where x: "x = (k', v')" by (cases x) auto
  have notin: "map_of xs k' = None" using Cons.prems x by (simp add: map_of_eq_None_iff)
  show ?case
    using Cons.IH [of "AList.update k' (f v') acc"] Cons.prems x notin
    by (auto simp add: update_conv' split: option.splits)
qed

lemma keys_fold_update:
  "fst ` set (fold (\<lambda>(k, v) acc. AList.update k (f v) acc) xs acc) = fst ` set acc \<union> fst ` set xs"
proof (induction xs arbitrary: acc)
  case Nil
  then show ?case by simp
next
  case (Cons x xs)
  obtain k' v' where x: "x = (k', v')" by (cases x) auto
  show ?case using Cons.IH [of "AList.update k' (f v') acc"] x
    by (auto simp add: dom_update)
qed

lemma values_fold_update:
  "(\<forall>(k, e) \<in> set acc. Q e) \<Longrightarrow> (\<forall>v. Q (f v)) \<Longrightarrow>
   (\<forall>(k, e) \<in> set (fold (\<lambda>(k, v) acc. AList.update k (f v) acc) xs acc). Q e)"
proof (induction xs arbitrary: acc)
  case Nil
  then show ?case by simp
next
  case (Cons x xs)
  obtain k' v' where x: "x = (k', v')" by (cases x) auto
  have "set (AList.update k' (f v') acc) \<subseteq> insert (k', f v') (set acc)"
    by (induction acc) auto
  then have "\<forall>(k, e) \<in> set (AList.update k' (f v') acc). Q e"
    using Cons.prems by fastforce
  then show ?case using Cons.IH [of "AList.update k' (f v') acc"] Cons.prems(2) x by simp
qed




lemma map_of_reduce:
  "wf_dict steam_apps \<Longrightarrow>
   map_of (reduce_steam_apps_for_export js steam_apps) k = map_option (reduce_entry js) (map_of steam_apps k)"
  using map_of_fold_update [of steam_apps "reduce_entry js" "[]" k]
  by (simp add: reduce_steam_apps_for_export_def wf_dict_def split: option.splits)

lemma keys_reduce:
  "fst ` set (reduce_steam_apps_for_export js steam_apps) = fst ` set steam_apps"
  using keys_fold_update [of "reduce_entry js" steam_apps "[]"]
  by (simp add: reduce_steam_apps_for_export_def)

lemma values_reduce:
  "(\<forall>v. Q (reduce_entry js v)) \<Longrightarrow>
   \<forall>(k, e) \<in> set (reduce_steam_apps_for_export js steam_apps). Q e"
  using values_fold_update [of "[]" Q "reduce_entry js" steam_apps]
  by (simp add: reduce_steam_apps_for_export_def)

lemma is_user_app_pop [simp]: "is_user_app P k (pop_show_details e) = is_user_app P k e"
  by (simp add: is_user_app_def pop_show_details_def dict_get_default_def delete_conv')

lemma mark_user_apps_fst:
  "fst (mark_user_apps P sa) = map (\<lambda>(k, e). (k, if k = [] then e else pop_show_details e)) sa"
proof (induction sa)
  case Nil
  then show ?case by simp
next
  case (Cons x sa)
  obtain k e where x: "x = (k, e)" by (cases x) auto
  obtain items1 ids where m: "mark_user_apps P sa = (items1, ids)"
    by (cases "mark_user_apps P sa") auto
  show ?case using Cons.IH x m by (cases "k = []") (simp_all add: Let_def)
qed

lemma mark_user_apps_snd:
  "set (snd (mark_user_apps P sa)) = {k. k \<noteq> [] \<and> (\<exists>e. (k, e) \<in> set sa \<and> is_user_app P k e)}
   \<and> distinct (snd (mark_user_apps P sa))"
proof (induction sa)
  case Nil
  then show ?case by simp
next
  case (Cons x sa)
  obtain k e where x: "x = (k, e)" by (cases x) auto
  obtain items1 ids where m: "mark_user_apps P sa = (items1, ids)"
    by (cases "mark_user_apps P sa") auto
  have ids: "set ids = {k. k \<noteq> [] \<and> (\<exists>e. (k, e) \<in> set sa \<and> is_user_app P k e)}"
    and d: "distinct ids"
    using Cons.IH m by simp_all
  show ?case
  proof (cases "k \<noteq> [] \<and> is_user_app P k e")
    case True
    then have "snd (mark_user_apps P (x # sa)) = List.insert k ids"
      using x m by (simp add: Let_def)
    moreover have "insert k {k. k \<noteq> [] \<and> (\<exists>e. (k, e) \<in> set sa \<and> is_user_app P k e)}
        = {k'. k' \<noteq> [] \<and> (\<exists>e'. (k', e') \<in> set ((k, e) # sa) \<and> is_user_app P k' e')}"
      using True by auto
    ultimately show ?thesis using ids d x by simp
  next
    case False
    then have "snd (mark_user_apps P (x # sa)) = ids"
      using x m by (cases "k = []") (simp_all add: Let_def)
    moreover have "{k. k \<noteq> [] \<and> (\<exists>e. (k, e) \<in> set sa \<and> is_user_app P k e)}
        = {k'. k' \<noteq> [] \<and> (\<exists>e'. (k', e') \<in> set ((k, e) # sa) \<and> is_user_app P k' e')}"
      using False by auto
    ultimately show ?thesis using ids d x by simp
  qed
qed

lemma mark_user_apps_keys: "map fst (fst (mark_user_apps P sa)) = map fst sa"
  by (simp add: mark_user_apps_fst split_beta)

lemma mark_user_apps_map_of:
  "map_of (fst (mark_user_apps P sa)) k
     = map_option (\<lambda>e. if k = [] then e else pop_show_details e) (map_of sa k)"
  unfolding mark_user_apps_fst by (induction sa) auto


lemma move_user_apps_ok:
  "distinct ids \<Longrightarrow> set ids \<subseteq> fst ` set sa \<Longrightarrow>
   \<exists>sa' ua'. move_user_apps ids sa ua = (None, sa', ua')
     \<and> (\<forall>k. map_of sa' k = (if k \<in> set ids then None else map_of sa k))
     \<and> (\<forall>k. map_of ua' k = (if k \<in> set ids then map_of sa k else map_of ua k))"
proof (induction ids arbitrary: sa ua)
  case Nil
  then show ?case by simp
next
  case (Cons i ids)
  from Cons.prems obtain e where e: "map_of sa i = Some e"
    by (cases "map_of sa i") (auto simp add: map_of_eq_None_iff)
  have d: "distinct ids" and ni: "i \<notin> set ids" using Cons.prems by auto
  have sub: "set ids \<subseteq> fst ` set (AList.delete i sa)"
  proof
    fix k assume k: "k \<in> set ids"
    then have "k \<noteq> i" using ni by auto
    moreover have "k \<in> fst ` set sa" using k Cons.prems by auto
    ultimately have "map_of (AList.delete i sa) k \<noteq> None"
      by (simp add: map_of_eq_None_iff)
    then show "k \<in> fst ` set (AList.delete i sa)" by (simp add: map_of_eq_None_iff)
  qed
  from Cons.IH [OF d sub, of "AList.update i e ua"]
  obtain sa' ua' where r: "move_user_apps ids (AList.delete i sa) (AList.update i e ua) = (None, sa', ua')"
    and m1: "\<forall>k. map_of sa' k = (if k \<in> set ids then None else map_of (AList.delete i sa) k)"
    and m2: "\<forall>k. map_of ua' k = (if k \<in> set ids then map_of (AList.delete i sa) k
                                   else map_of (AList.update i e ua) k)"
    by blast
  have "move_user_apps (i # ids) sa ua = (None, sa', ua')" using e r by simp
  moreover have "\<forall>k. map_of sa' k = (if k \<in> set (i # ids) then None else map_of sa k)"
    using m1 by (auto simp add: delete_conv')
  moreover have "\<forall>k. map_of ua' k = (if k \<in> set (i # ids) then map_of sa k else map_of ua k)"
    using m2 e ni by (auto simp add: delete_conv' update_conv')
  ultimately show ?case by blast
qed










lemma save_steam_lib_result:
  fixes env aliased sa s
  defines "R \<equiv> set (snd (mark_user_apps (USER_APP_PREFIX env) sa))"
  shows "\<exists>sa2 s2. save_steam_lib env aliased sa s = (None, sa2, s2)
     \<and> (\<forall>k. map_of sa2 k = (if k \<in> R then None
                else map_option (\<lambda>e. if k = [] then e else pop_show_details e) (map_of sa k)))
     \<and> (\<forall>k \<in> R. map_of (user_apps s2) k = map_option pop_show_details (map_of sa k))
     \<and> steam_apps_file s2 = reduce_steam_apps_for_export (settings_to_js env) sa2
     \<and> settings_file s2 = (user_apps s2, user_app_counter s2)
     \<and> user_app_counter s2 = user_app_counter s"
proof -
  obtain sa1 ids where m: "mark_user_apps (USER_APP_PREFIX env) sa = (sa1, ids)"
    by (cases "mark_user_apps (USER_APP_PREFIX env) sa") auto
  have R: "R = set ids" using m by (simp add: R_def)
  have d: "distinct ids" using mark_user_apps_snd [of "USER_APP_PREFIX env" sa] m by simp
  have sa1: "\<And>k. map_of sa1 k = map_option (\<lambda>e. if k = [] then e else pop_show_details e) (map_of sa k)"
    using mark_user_apps_map_of [of "USER_APP_PREFIX env" sa] m by simp
  have keys: "map fst sa1 = map fst sa" using mark_user_apps_keys [of "USER_APP_PREFIX env" sa] m by simp
  have ne: "\<And>k. k \<in> set ids \<Longrightarrow> k \<noteq> []"
    using mark_user_apps_snd [of "USER_APP_PREFIX env" sa] m by auto
  have sub: "set ids \<subseteq> fst ` set sa1"
  proof
    fix k assume "k \<in> set ids"
    then have "k \<in> fst ` set sa" using mark_user_apps_snd [of "USER_APP_PREFIX env" sa] m
      by (auto intro: rev_image_eqI)
    then have "k \<in> set (map fst sa1)" using keys by simp
    then show "k \<in> fst ` set sa1" by simp
  qed
  let ?registry1 = "map (\<lambda>(app_id, e). (app_id, if app_id \<in> set aliased \<and> app_id \<noteq> []
                                      then pop_show_details e else e)) (user_apps s)"
  from move_user_apps_ok [OF d sub, of ?registry1]
  obtain sa2 ua2 where mv: "move_user_apps ids sa1 ?registry1 = (None, sa2, ua2)"
    and m1: "\<forall>k. map_of sa2 k = (if k \<in> set ids then None else map_of sa1 k)"
    and m2: "\<forall>k. map_of ua2 k = (if k \<in> set ids then map_of sa1 k else map_of ?registry1 k)"
    by blast
  let ?s2 = "AppSettings_save (save_steam_apps (reduce_steam_apps_for_export (settings_to_js env) sa2)
                   (s\<lparr>user_apps := ua2\<rparr>))"
  have "save_steam_lib env aliased sa s = (None, sa2, ?s2)"
    using m mv by (simp add: save_steam_lib_def)
  moreover have "\<forall>k. map_of sa2 k = (if k \<in> R then None
                else map_option (\<lambda>e. if k = [] then e else pop_show_details e) (map_of sa k))"
    using m1 sa1 R by simp
  moreover have "\<forall>k \<in> R. map_of (user_apps ?s2) k = map_option pop_show_details (map_of sa k)"
    using m2 sa1 R ne by (simp add: AppSettings_save_def save_steam_apps_def)
  moreover have "steam_apps_file ?s2 = reduce_steam_apps_for_export (settings_to_js env) sa2"
    by (simp add: AppSettings_save_def save_steam_apps_def)
  moreover have "settings_file ?s2 = (user_apps ?s2, user_app_counter ?s2)"
    by (simp add: AppSettings_save_def save_steam_apps_def)
  moreover have "user_app_counter ?s2 = user_app_counter s"
    by (simp add: AppSettings_save_def save_steam_apps_def)
  ultimately show ?thesis by blast
qed

lemma reduce_entry_keys:
  "map fst (reduce_entry js e) =
     [''settings'', ''fsrInstalled'', ''fsrVersion'', ''fsr_compatible'', ''name'', ''sizeGb'',
      ''path'', ''openVrDllPaths'', ''openVrDllPathsSelected'', ''openVr'', ''SizeOnDisk'', ''appid'']
   \<and> \<not> has_key (reduce_entry js e) ''_showDetails'' \<and> \<not> has_key (reduce_entry js e) ''userApp''"
  by (simp add: reduce_entry_def has_key_def)

text \<open>
  C9. Every entry of the dict \<open>reduce_steam_apps_for_export\<close> returns has exactly the
  twelve keys \<^verbatim>\<open>settings\<close>, \<^verbatim>\<open>fsrInstalled\<close>, \<^verbatim>\<open>fsrVersion\<close>, \<^verbatim>\<open>fsr_compatible\<close>,
  \<^verbatim>\<open>name\<close>, \<^verbatim>\<open>sizeGb\<close>, \<^verbatim>\<open>path\<close>, \<^verbatim>\<open>openVrDllPaths\<close>, \<^verbatim>\<open>openVrDllPathsSelected\<close>,
  \<^verbatim>\<open>openVr\<close>, \<^verbatim>\<open>SizeOnDisk\<close> and \<^verbatim>\<open>appid\<close>, so neither \<^verbatim>\<open>_showDetails\<close> nor \<^verbatim>\<open>userApp\<close>;
  the result has the identifiers of its argument, and the entry of an identifier holds
  the settings in export form and the name and identifier of the argument's entry. The
  disk cache that \<^verbatim>\<open>_save_steam_lib\<close> writes consists of such entries, and
  \<^verbatim>\<open>_save_steam_lib\<close> never stops with an exception.
\<close>

theorem reduce_steam_apps_for_export_keys:
  "(\<forall>(app_id, e) \<in> set (reduce_steam_apps_for_export js steam_apps).
      map fst e =
        [''settings'', ''fsrInstalled'', ''fsrVersion'', ''fsr_compatible'', ''name'', ''sizeGb'',
         ''path'', ''openVrDllPaths'', ''openVrDllPathsSelected'', ''openVr'', ''SizeOnDisk'', ''appid'']
      \<and> \<not> has_key e ''_showDetails'' \<and> \<not> has_key e ''userApp'')
   \<and> fst ` set (reduce_steam_apps_for_export js steam_apps) = fst ` set steam_apps
   \<and> (wf_dict steam_apps \<longrightarrow>
        (\<forall>k e. map_of steam_apps k = Some e \<longrightarrow>
           (\<exists>r. map_of (reduce_steam_apps_for_export js steam_apps) k = Some r
              \<and> dict_get r ''settings'' = js True e
              \<and> dict_get r ''name'' = dict_get e ''name''
              \<and> dict_get r ''appid'' = dict_get e ''appid'')))
   \<and> (case save_steam_lib env aliased steam_apps s of (err, data, s2) \<Rightarrow>
        err = None
        \<and> (\<forall>(app_id, e) \<in> set (steam_apps_file s2).
             map fst e =
               [''settings'', ''fsrInstalled'', ''fsrVersion'', ''fsr_compatible'', ''name'', ''sizeGb'',
                ''path'', ''openVrDllPaths'', ''openVrDllPathsSelected'', ''openVr'', ''SizeOnDisk'',
                ''appid'']
             \<and> \<not> has_key e ''_showDetails'' \<and> \<not> has_key e ''userApp''))"
proof (intro conjI impI allI)
  show "\<forall>(app_id, e) \<in> set (reduce_steam_apps_for_export js steam_apps).
      map fst e =
        [''settings'', ''fsrInstalled'', ''fsrVersion'', ''fsr_compatible'', ''name'', ''sizeGb'',
         ''path'', ''openVrDllPaths'', ''openVrDllPathsSelected'', ''openVr'', ''SizeOnDisk'', ''appid'']
      \<and> \<not> has_key e ''_showDetails'' \<and> \<not> has_key e ''userApp''"
    by (rule values_reduce) (simp add: reduce_entry_keys)
next
  show "fst ` set (reduce_steam_apps_for_export js steam_apps) = fst ` set steam_apps"
    by (rule keys_reduce)
next
  fix k e assume wf: "wf_dict steam_apps" and e: "map_of steam_apps k = Some e"
  have "map_of (reduce_steam_apps_for_export js steam_apps) k = Some (reduce_entry js e)"
    using map_of_reduce [OF wf, of js k] e by simp
  moreover have "dict_get (reduce_entry js e) ''settings'' = js True e"
    "dict_get (reduce_entry js e) ''name'' = dict_get e ''name''"
    "dict_get (reduce_entry js e) ''appid'' = dict_get e ''appid''"
    by (simp_all add: reduce_entry_def dict_get_def)
  ultimately show "\<exists>r. map_of (reduce_steam_apps_for_export js steam_apps) k = Some r
              \<and> dict_get r ''settings'' = js True e
              \<and> dict_get r ''name'' = dict_get e ''name''
              \<and> dict_get r ''appid'' = dict_get e ''appid''"
    by blast
next
  obtain sa2 s2 where r: "save_steam_lib env aliased steam_apps s = (None, sa2, s2)"
    and f: "steam_apps_file s2 = reduce_steam_apps_for_export (settings_to_js env) sa2"
    using save_steam_lib_result [of env aliased steam_apps s] by blast
  have "\<forall>(app_id, e) \<in> set (steam_apps_file s2).
             map fst e =
               [''settings'', ''fsrInstalled'', ''fsrVersion'', ''fsr_compatible'', ''name'', ''sizeGb'',
                ''path'', ''openVrDllPaths'', ''openVrDllPathsSelected'', ''openVr'', ''SizeOnDisk'',
                ''appid'']
             \<and> \<not> has_key e ''_showDetails'' \<and> \<not> has_key e ''userApp''"
    unfolding f by (rule values_reduce) (simp add: reduce_entry_keys)
  then show "case save_steam_lib env aliased steam_apps s of (err, data, s2) \<Rightarrow>
        err = None
        \<and> (\<forall>(app_id, e) \<in> set (steam_apps_file s2).
             map fst e =
               [''settings'', ''fsrInstalled'', ''fsrVersion'', ''fsr_compatible'', ''name'', ''sizeGb'',
                ''path'', ''openVrDllPaths'', ''openVrDllPathsSelected'', ''openVr'', ''SizeOnDisk'',
                ''appid'']
             \<and> \<not> has_key e ''_showDetails'' \<and> \<not> has_key e ''userApp'')"
    using r by simp
qed












theorem reduce_steam_apps_for_export_keys_witness:
  "map (\<lambda>(k, e). (k, map fst e))
       (reduce_steam_apps_for_export (settings_to_js example_lib_env) example_scanned)
     = [(''250820'',
         [''settings'', ''fsrInstalled'', ''fsrVersion'', ''fsr_compatible'', ''name'', ''sizeGb'',
          ''path'', ''openVrDllPaths'', ''openVrDllPathsSelected'', ''openVr'', ''SizeOnDisk'',
          ''appid'']),
        (''546560'',
         [''settings'', ''fsrInstalled'', ''fsrVersion'', ''fsr_compatible'', ''name'', ''sizeGb'',
          ''path'', ''openVrDllPaths'', ''openVrDllPathsSelected'', ''openVr'', ''SizeOnDisk'',
          ''appid''])]
   \<and> wf_dict example_scanned
   \<and> fst (save_steam_lib example_lib_env [] example_scanned example_library_settings) = None"
proof -
  have e: "reduce_steam_apps_for_export (settings_to_js example_lib_env) example_scanned
      = [(''250820'', reduce_entry (settings_to_js example_lib_env)
            [(''appid'', JStr ''250820''), (''name'', JStr ''SteamVR''), (''sizeGb'', JInt 5),
             (''openVrDllPaths'', JList [JStr ''/steamvr/bin/openvr_api.dll'']),
             (''openVrDllPathsSelected'', JList [JStr ''/steamvr/bin/openvr_api.dll'']),
             (''_showDetails'', JBool True)]),
         (''546560'', reduce_entry (settings_to_js example_lib_env)
            [(''appid'', JStr ''546560''), (''name'', JStr ''Alyx''),
             (''openVrDllPaths'', JList [])])]"
    by (simp add: reduce_steam_apps_for_export_def example_scanned_def)
  have wf: "wf_dict example_scanned"
    by (simp add: wf_dict_def example_scanned_def)
  show ?thesis
    using reduce_steam_apps_for_export_keys [of "settings_to_js example_lib_env" example_scanned
        example_lib_env "[]" example_library_settings] wf
    by (auto simp add: e split: prod.splits)
qed








text \<open>
  The data \<open>get_steam_lib_fn\<close> returns is the dict it handed to \<^verbatim>\<open>_save_steam_lib\<close>, from
  which the second loop has popped the entries it moved to the registry: a user app that
  was merged in is not in the returned data, while \<^verbatim>\<open>load_steam_lib_fn\<close> returns the cached
  apps together with the user apps.
\<close>

lemma refresh_data_without_user_apps:
  "has_key (user_apps (AppSettings_load example_library_settings)) ''#Usr001''
   \<and> \<not> has_key (resp_data (fst (get_steam_lib_fn example_lib_env example_library_settings)))
         ''#Usr001''"
  by code_simp

section \<open>The installation state machine: properties\<close>

lemma backup_name_length: "length (backup_name name) = length name + 5"
proof -
  let ?ext = "rev (takeWhile (\<lambda>c. c \<noteq> CHR ''.'') (rev name))"
  have le: "length ?ext \<le> length name"
    using length_takeWhile_le [of "\<lambda>c. c \<noteq> CHR ''.''" "rev name"] by simp
  show ?thesis
  proof (cases "CHR ''.'' \<in> set name")
    case True
    then have "takeWhile (\<lambda>c. c \<noteq> CHR ''.'') (rev name) \<noteq> rev name"
      by (auto simp add: takeWhile_eq_all_conv)
    then have "length ?ext < length name"
      using le by (metis length_rev length_takeWhile_le le_neq_implies_less takeWhile_eq_take take_all_iff)
    then show ?thesis by (auto simp add: backup_name_def split_ext_def Let_def)
  next
    case False
    then show ?thesis by (simp add: backup_name_def split_ext_def Let_def)
  qed
qed

lemma backup_name_neq: "backup_name name \<noteq> name"
  using backup_name_length [of name] by (metis add_cancel_right_right zero_neq_numeral)


text \<open>
  C1. In a host directory that exists, is writable and holds a target binary, with the
  state \<open>Absent\<close> and a config file name that is neither the target's nor the backup's, the
  first toggle succeeds, leaves the backup file \<^verbatim>\<open><stem>.orig<ext>\<close> holding the original
  binary, writes the config file and puts the payload at the target path; the second
  toggle succeeds, puts the original binary back at the target path, removes the backup
  and the config file and leaves the state \<open>Absent\<close>. The original binary is the target
  binary found in place or, when a backup of the reserved name was already there, that
  trusted backup. A directory that held neither backup nor config file ends with exactly
  the files it started with.
\<close>

theorem toggle_install_twice:
  assumes dir: "dir_exists h" "dir_writable h"
    and target: "dir_files h (target_name m) = Some in_place"
    and absent: "inst_state h = Absent"
    and cfg: "cfg_name m \<noteq> target_name m" "cfg_name m \<noteq> backup_name (target_name m)"
  shows "(case toggle_install m h of (r1, h1) \<Rightarrow>
           (case toggle_install m h1 of (r2, h2) \<Rightarrow>
              (let original = (case dir_files h (backup_name (target_name m)) of
                                 Some trusted \<Rightarrow> trusted | None \<Rightarrow> in_place)
               in toggle_ok r1
                  \<and> dir_files h1 (backup_name (target_name m)) = Some original
                  \<and> dir_files h1 (cfg_name m) = Some (cfg_text m)
                  \<and> dir_files h1 (target_name m) = Some (payload m)
                  \<and> inst_state h1 = Installed
                  \<and> toggle_ok r2
                  \<and> dir_files h2 (target_name m) = Some original
                  \<and> dir_files h2 (backup_name (target_name m)) = None
                  \<and> dir_files h2 (cfg_name m) = None
                  \<and> inst_state h2 = Absent
                  \<and> (dir_files h (backup_name (target_name m)) = None
                        \<and> dir_files h (cfg_name m) = None
                      \<longrightarrow> dir_files h2 = dir_files h))))"
proof (cases "dir_files h (backup_name (target_name m))")
  case None
  let ?b = "backup_name (target_name m)"
  let ?f1 = "(dir_files h)(target_name m := None, ?b \<mapsto> in_place, target_name m \<mapsto> payload m,
               cfg_name m \<mapsto> cfg_text m)"
  let ?h1 = "h\<lparr>dir_files := ?f1, inst_state := Installed, recorded_version := mod_version m\<rparr>"
  have t1: "toggle_install m h = (Inr [], ?h1)"
    using dir target absent None by (simp add: toggle_install_def install_mod_def Let_def)
  let ?f2 = "(?f1(cfg_name m := None))(?b := None, target_name m \<mapsto> in_place)"
  let ?h2 = "?h1\<lparr>dir_files := ?f2, inst_state := Absent, recorded_version := []\<rparr>"
  have t2: "toggle_install m ?h1 = (Inr [], ?h2)"
    using cfg backup_name_neq [of "target_name m"]
    by (simp add: toggle_install_def uninstall_mod_def Let_def)
  have same: "dir_files h (cfg_name m) = None \<Longrightarrow> ?f2 = dir_files h"
    using None target cfg backup_name_neq [of "target_name m"] by (auto simp add: fun_eq_iff)
  show ?thesis
    unfolding t1 prod.case t2
    using None cfg backup_name_neq [of "target_name m"] same
    by (simp add: toggle_ok_def)
next
  case (Some trusted)
  let ?b = "backup_name (target_name m)"
  let ?f1 = "(dir_files h)(target_name m \<mapsto> payload m, cfg_name m \<mapsto> cfg_text m)"
  let ?h1 = "h\<lparr>dir_files := ?f1, inst_state := Installed, recorded_version := mod_version m\<rparr>"
  have t1: "toggle_install m h = (Inr [BackupCollision], ?h1)"
    using dir target absent Some by (simp add: toggle_install_def install_mod_def Let_def)
  let ?f2 = "(?f1(cfg_name m := None))(?b := None, target_name m \<mapsto> trusted)"
  let ?h2 = "?h1\<lparr>dir_files := ?f2, inst_state := Absent, recorded_version := []\<rparr>"
  have t2: "toggle_install m ?h1 = (Inr [], ?h2)"
    using Some cfg backup_name_neq [of "target_name m"]
    by (simp add: toggle_install_def uninstall_mod_def Let_def)
  show ?thesis
    unfolding t1 prod.case t2
    using Some cfg backup_name_neq [of "target_name m"]
    by (simp add: toggle_ok_def)
qed

lemma example_backup_name: "backup_name ''openvr_api.dll'' = ''openvr_api.orig.dll''"
  by code_simp

theorem toggle_install_twice_witness:
  "dir_exists example_host_dir \<and> dir_writable example_host_dir
   \<and> dir_files example_host_dir (target_name example_mod_type) = Some ''0123456789''
   \<and> inst_state example_host_dir = Absent
   \<and> dir_files (snd (toggle_install example_mod_type example_host_dir)) ''openvr_api.orig.dll''
       = Some ''0123456789''
   \<and> dir_files (snd (toggle_install example_mod_type example_host_dir)) ''openvr_api.dll''
       = Some (payload example_mod_type)
   \<and> dir_files (snd (toggle_install example_mod_type
        (snd (toggle_install example_mod_type example_host_dir)))) = dir_files example_host_dir"
proof -
  have dir: "dir_exists example_host_dir" "dir_writable example_host_dir"
    by (simp_all add: example_host_dir_def)
  have target: "dir_files example_host_dir (target_name example_mod_type) = Some ''0123456789''"
    by (simp add: example_host_dir_def example_mod_type_def)
  have absent: "inst_state example_host_dir = Absent"
    by (simp add: example_host_dir_def)
  have cfg: "cfg_name example_mod_type \<noteq> target_name example_mod_type"
    "cfg_name example_mod_type \<noteq> backup_name (target_name example_mod_type)"
    by (simp_all add: example_mod_type_def example_backup_name)
  have none: "dir_files example_host_dir (backup_name (target_name example_mod_type)) = None"
    "dir_files example_host_dir (cfg_name example_mod_type) = None"
    by (simp_all add: example_host_dir_def example_mod_type_def example_backup_name)
  have names: "backup_name (target_name example_mod_type) = ''openvr_api.orig.dll''"
    "target_name example_mod_type = ''openvr_api.dll''"
    by (simp_all add: example_mod_type_def example_backup_name)
  show ?thesis
    using toggle_install_twice [OF dir target absent cfg] dir target absent none
    by (simp add: names Let_def example_backup_name split: prod.splits)
qed

end
